theory Spec2Isabelle
  imports Complex_Main
begin

section \<open>The distributed training driver of \<^verbatim>\<open>igb/train_multi_hetero.py\<close>\<close>

text \<open>
  The function \<^verbatim>\<open>run(proc_id, devices, g, args)\<close> is executed by every worker process.
  Lines 18 to 99 join the process group and build the three minibatch loaders, the model,
  the optimizer and the learning-rate schedule; lines 101 to 181 are the training loop, the
  periodic validation with its best-model checkpoint, and the final test evaluation.
  The embedding below covers lines 101 to 181. Everything those lines call in the graph,
  tensor, metrics and clock libraries is a field of the record \<open>externals\<close>, so that no
  behaviour of a library is assumed.

  Python floats are idealised as real numbers: there is no rounding, no infinity and no
  NaN. The one place where the loop itself would produce a NaN from well-typed data, the
  accuracy of zero samples, is an error value of the model.
\<close>

subsection \<open>Errors\<close>

datatype error =
    ZeroDivisionError_mean
      \<comment> \<open>\<^verbatim>\<open>sum(accs) / len(accs)\<close> and \<^verbatim>\<open>sum(gpu_mem_alloc) / len(gpu_mem_alloc)\<close>
          with no minibatch, lines 132 and 133\<close>
  | ZeroDivisionError_modulo
      \<comment> \<open>\<^verbatim>\<open>epoch % args.log_every\<close> with \<^verbatim>\<open>log_every = 0\<close>, line 137\<close>
  | ValueError_concatenate
      \<comment> \<open>\<^verbatim>\<open>np.concatenate\<close> of an empty list of arrays, lines 146, 147, 177 and 178\<close>
  | ValueError_inconsistent
      \<comment> \<open>\<^verbatim>\<open>accuracy_score\<close> on arrays of different lengths\<close>
  | NotANumber
      \<comment> \<open>\<^verbatim>\<open>accuracy_score\<close> on two arrays of length zero\<close>

subsection \<open>Configuration, collaborators and state\<close>

text \<open>The options of the argument parser that lines 101 to 181 read.\<close>

record args =
  epochs :: int
  log_every :: int
  model_save :: int
  modelpath :: string
  learning_rate :: real
  sched_stepsize :: int
  sched_gamma :: real

text \<open>The places where the wall clock is read: lines 102, 107, 160 and 181.\<close>

datatype clock_point = TrainingStart | EpochStart nat | EpochPrint nat | FinalPrint

text \<open>
  What the worker is given by the libraries. \<open>'b\<close> is a minibatch as a loader yields it
  (input nodes, seeds, blocks), \<open>'p\<close> the learnable state that the optimizer updates and
  \<^verbatim>\<open>state_dict\<close> saves, \<open>'s\<close> the score matrix the model returns. The loaders are
  indexed by the epoch in which they are traversed, so nothing is assumed about two
  traversals giving the same batches. The optimizer step is indexed by epoch and step,
  since the gradients it applies are averaged with those of the other workers.
\<close>

record ('p, 'b, 's) externals =
  train_dataloader :: "nat \<Rightarrow> 'b list"
  val_dataloader :: "nat \<Rightarrow> 'b list"
  test_dataloader :: "'b list"
  label :: "'b \<Rightarrow> nat list"
    \<comment> \<open>\<^verbatim>\<open>blocks[-1].dstdata['label'][category]\<close>\<close>
  forward :: "bool \<Rightarrow> bool \<Rightarrow> 'p \<Rightarrow> 'b \<Rightarrow> 's"
    \<comment> \<open>\<^verbatim>\<open>model(blocks, inputs)\<close>; the first flag is the training mode of the module, the
        second tells whether gradients are tracked: it is off inside
        \<^verbatim>\<open>with torch.no_grad()\<close> and on elsewhere\<close>
  argmax :: "'s \<Rightarrow> nat list"
    \<comment> \<open>\<^verbatim>\<open>.argmax(1)\<close>\<close>
  loss_fcn :: "'s \<Rightarrow> nat list \<Rightarrow> real"
  optimizer_step :: "nat \<Rightarrow> nat \<Rightarrow> real \<Rightarrow> 'p \<Rightarrow> 'b \<Rightarrow> 'p"
    \<comment> \<open>\<^verbatim>\<open>zero_grad\<close>, \<^verbatim>\<open>backward\<close>, \<^verbatim>\<open>step\<close> at the given epoch, step and
        learning rate\<close>
  cuda_is_available :: bool
  max_memory_allocated :: "nat \<Rightarrow> nat \<Rightarrow> nat"
    \<comment> \<open>bytes, when read at the given epoch and step\<close>
  time :: "clock_point \<Rightarrow> real"
  init_model :: "'p"
  init_disk :: "string \<rightharpoonup> 'p"

text \<open>What the worker prints from line 154 on, one constructor per \<^verbatim>\<open>print\<close>.\<close>

datatype printed =
    EpochLine nat real real real int real
      \<comment> \<open>epoch, loss, train accuracy, validation accuracy, seconds, memory\<close>
  | TestAccLine real
  | TotalTimeLine int

text \<open>
  The variables of the worker that outlive a minibatch. \<open>saves\<close> lists the epochs whose
  evaluation called \<^verbatim>\<open>torch.save\<close> and \<open>train_steps\<close> counts the minibatches
  trained on; both are bookkeeping of the model, not variables of the source.
\<close>

record 'p state =
  model :: "'p"
  training :: bool
  lr :: real
  last_epoch :: int
  best_accuracy :: real
  disk :: "string \<rightharpoonup> 'p"
  saves :: "nat list"
  stdout :: "printed list"
  train_steps :: nat

subsection \<open>Library functions with a fixed meaning\<close>

text \<open>\<^verbatim>\<open>int(x)\<close> of a float truncates towards zero.\<close>

definition py_int :: "real \<Rightarrow> int" where
  "py_int x = (if 0 \<le> x then \<lfloor>x\<rfloor> else \<lceil>x\<rceil>)"

text \<open>\<^verbatim>\<open>sklearn.metrics.accuracy_score(y_true, y_pred)\<close>: the fraction of positions that agree.\<close>

definition accuracy_score :: "nat list \<Rightarrow> nat list \<Rightarrow> error + real" where
  "accuracy_score y_true y_pred =
     (if length y_true \<noteq> length y_pred then Inl ValueError_inconsistent
      else if y_true = [] then Inl NotANumber
      else Inr (real (length (filter (\<lambda>(t, p). t = p) (zip y_true y_pred)))
                / real (length y_true)))"

text \<open>\<^verbatim>\<open>np.concatenate(arrays)\<close> of one-dimensional arrays.\<close>

definition concatenate :: "'a list list \<Rightarrow> error + 'a list" where
  "concatenate arrays = (if arrays = [] then Inl ValueError_concatenate else Inr (concat arrays))"

text \<open>
  Modelled from the spec: the step-decay schedule \<^verbatim>\<open>optim.lr_scheduler.StepLR\<close>, whose
  code is not in the repository. The spec: the schedule advances once per call and
  "multiplies current rate by the decay factor once every fixed number of epochs".
\<close>

definition sched_step :: "args \<Rightarrow> 'p state \<Rightarrow> 'p state" where
  "sched_step a st =
     (let n = last_epoch st + 1
      in st\<lparr>last_epoch := n,
             lr := (if sched_stepsize a \<noteq> 0 \<and> n mod sched_stepsize a = 0
                    then lr st * sched_gamma a else lr st)\<rparr>)"

subsection \<open>One training epoch, lines 106 to 133\<close>

text \<open>
  The loop over the train loader, lines 112 to 130. The accumulators are the worker state,
  \<^verbatim>\<open>epoch_loss\<close>, \<^verbatim>\<open>accs\<close> and \<^verbatim>\<open>gpu_mem_alloc\<close>.
\<close>

fun train_batches ::
  "('p, 'b, 's) externals \<Rightarrow> nat \<Rightarrow> nat \<Rightarrow> 'b list \<Rightarrow>
   'p state \<times> real \<times> real list \<times> real list \<Rightarrow>
   error + 'p state \<times> real \<times> real list \<times> real list" where
  "train_batches X epoch step [] acc = Inr acc"
| "train_batches X epoch step (b # bs) (st, epoch_loss, accs, gpu_mem_alloc) =
     (let batch_labels = label X b;
          batch_pred = forward X (training st) True (model st) b;
          loss = loss_fcn X batch_pred batch_labels;
          st' = st\<lparr>model := optimizer_step X epoch step (lr st) (model st) b,
                   train_steps := train_steps st + 1\<rparr>
      in case accuracy_score batch_labels (argmax X batch_pred) of
           Inl e \<Rightarrow> Inl e
         | Inr score \<Rightarrow>
             train_batches X epoch (Suc step) bs
               (st', epoch_loss + loss, accs @ [score * 100],
                gpu_mem_alloc @
                  [if cuda_is_available X
                   then real (max_memory_allocated X epoch step) / 1000000 else 0]))"

text \<open>Lines 106 to 133: the result is the state with \<^verbatim>\<open>epoch_loss\<close>,
  \<^verbatim>\<open>epoch_acc\<close> and \<^verbatim>\<open>epoch_gpu_mem\<close>.\<close>

definition train_epoch ::
  "('p, 'b, 's) externals \<Rightarrow> nat \<Rightarrow> 'p state \<Rightarrow> error + 'p state \<times> real \<times> real \<times> real" where
  "train_epoch X epoch st =
     (case train_batches X epoch 0 (train_dataloader X epoch)
             (st\<lparr>training := True\<rparr>, 0, [], []) of
        Inl e \<Rightarrow> Inl e
      | Inr (st', epoch_loss, accs, gpu_mem_alloc) \<Rightarrow>
          if accs = [] then Inl ZeroDivisionError_mean
          else if gpu_mem_alloc = [] then Inl ZeroDivisionError_mean
          else Inr (st', epoch_loss,
                    sum_list accs / real (length accs),
                    sum_list gpu_mem_alloc / real (length gpu_mem_alloc)))"

subsection \<open>Evaluation, lines 138 to 152 and 169 to 179\<close>

text \<open>
  The loop over an evaluation loader, lines 141 to 145 and 172 to 176, inside
  \<^verbatim>\<open>with torch.no_grad()\<close>: the forward pass only, made with gradient tracking off, which
  changes no variable of the worker.
\<close>

fun drain ::
  "('p, 'b, 's) externals \<Rightarrow> 'p state \<Rightarrow> 'b list \<Rightarrow> nat list list \<times> nat list list \<Rightarrow>
   nat list list \<times> nat list list" where
  "drain X st [] (predictions, labels) = (predictions, labels)"
| "drain X st (b # bs) (predictions, labels) =
     drain X st bs
       (predictions @ [argmax X (forward X (training st) False (model st) b)],
        labels @ [label X b])"

text \<open>Lines 149 to 152: the best-accuracy tracker and the checkpoint.\<close>

definition update_best :: "args \<Rightarrow> nat \<Rightarrow> real \<Rightarrow> 'p state \<Rightarrow> 'p state" where
  "update_best a epoch val_acc st =
     (if best_accuracy st < val_acc
      then (if model_save a \<noteq> 0
            then st\<lparr>best_accuracy := val_acc,
                    disk := (disk st)(modelpath a \<mapsto> model st),
                    saves := saves st @ [epoch]\<rparr>
            else st\<lparr>best_accuracy := val_acc\<rparr>)
      else st)"

text \<open>Lines 138 to 152: the result is \<^verbatim>\<open>val_acc\<close> and the state.\<close>

definition validate ::
  "('p, 'b, 's) externals \<Rightarrow> args \<Rightarrow> nat \<Rightarrow> 'p state \<Rightarrow> error + real \<times> 'p state" where
  "validate X a epoch st =
     (case drain X st (val_dataloader X epoch) ([], []) of
        (predictions, labels) \<Rightarrow>
          (case concatenate predictions of
             Inl e \<Rightarrow> Inl e
           | Inr predictions' \<Rightarrow>
               (case concatenate labels of
                  Inl e \<Rightarrow> Inl e
                | Inr labels' \<Rightarrow>
                    (case accuracy_score labels' predictions' of
                       Inl e \<Rightarrow> Inl e
                     | Inr score \<Rightarrow>
                         Inr (score * 100, update_best a epoch (score * 100) st)))))"

text \<open>Lines 169 to 179: the result is \<^verbatim>\<open>test_acc\<close>.\<close>

definition test ::
  "('p, 'b, 's) externals \<Rightarrow> 'p state \<Rightarrow> error + real" where
  "test X st =
     (case drain X st (test_dataloader X) ([], []) of
        (predictions, labels) \<Rightarrow>
          (case concatenate predictions of
             Inl e \<Rightarrow> Inl e
           | Inr predictions' \<Rightarrow>
               (case concatenate labels of
                  Inl e \<Rightarrow> Inl e
                | Inr labels' \<Rightarrow>
                    (case accuracy_score labels' predictions' of
                       Inl e \<Rightarrow> Inl e
                     | Inr score \<Rightarrow> Inr (score * 100)))))"

subsection \<open>The epoch loop and the whole run, lines 101 to 181\<close>

text \<open>The body of the loop over the epochs, lines 106 to 165.\<close>

definition run_epoch ::
  "nat \<Rightarrow> ('p, 'b, 's) externals \<Rightarrow> args \<Rightarrow> nat \<Rightarrow> 'p state \<Rightarrow> error + 'p state" where
  "run_epoch proc_id X a epoch st =
     (case train_epoch X epoch st of
        Inl e \<Rightarrow> Inl e
      | Inr (st1, epoch_loss, epoch_acc, epoch_gpu_mem) \<Rightarrow>
          (let st2 = st1\<lparr>training := False\<rparr>
           in if proc_id = 0
              then (if log_every a = 0 then Inl ZeroDivisionError_modulo
                    else if int epoch mod log_every a = 0
                    then (case validate X a epoch st2 of
                            Inl e \<Rightarrow> Inl e
                          | Inr (val_acc, st3) \<Rightarrow>
                              Inr (sched_step a
                                (st3\<lparr>stdout := stdout st3 @
                                   [EpochLine epoch epoch_loss epoch_acc val_acc
                                      (py_int (time X (EpochPrint epoch) - time X (EpochStart epoch)))
                                      epoch_gpu_mem]\<rparr>)))
                    else Inr (sched_step a st2))
              else Inr (sched_step a st2)))"

text \<open>\<^verbatim>\<open>for epoch in range(args.epochs)\<close>, over the list of the epochs still to run.\<close>

fun run_epochs ::
  "nat \<Rightarrow> ('p, 'b, 's) externals \<Rightarrow> args \<Rightarrow> nat list \<Rightarrow> 'p state \<Rightarrow> error + 'p state" where
  "run_epochs proc_id X a [] st = Inr st"
| "run_epochs proc_id X a (epoch # rest) st =
     (case run_epoch proc_id X a epoch st of
        Inl e \<Rightarrow> Inl e
      | Inr st' \<Rightarrow> run_epochs proc_id X a rest st')"

text \<open>The worker at line 101: the tracker is zero, the schedule has not stepped, a
  freshly built module is in training mode.\<close>

definition init_state :: "('p, 'b, 's) externals \<Rightarrow> args \<Rightarrow> 'p state" where
  "init_state X a =
     \<lparr>model = init_model X, training = True, lr = learning_rate a, last_epoch = 0,
      best_accuracy = 0, disk = init_disk X, saves = [], stdout = [], train_steps = 0\<rparr>"

text \<open>The worker after the first \<open>n\<close> epochs.\<close>

definition after_epochs ::
  "nat \<Rightarrow> ('p, 'b, 's) externals \<Rightarrow> args \<Rightarrow> nat \<Rightarrow> error + 'p state" where
  "after_epochs proc_id X a n = run_epochs proc_id X a [0..<n] (init_state X a)"

text \<open>Lines 101 to 181.\<close>

definition run ::
  "nat \<Rightarrow> ('p, 'b, 's) externals \<Rightarrow> args \<Rightarrow> error + 'p state" where
  "run proc_id X a =
     (case after_epochs proc_id X a (nat (epochs a)) of
        Inl e \<Rightarrow> Inl e
      | Inr st \<Rightarrow>
          (let st1 = st\<lparr>training := False\<rparr>
           in if proc_id = 0
              then (case test X st1 of
                      Inl e \<Rightarrow> Inl e
                    | Inr test_acc \<Rightarrow>
                        Inr (st1\<lparr>stdout := stdout st1 @
                               [TestAccLine test_acc,
                                TotalTimeLine (py_int (time X FinalPrint - time X TrainingStart))]\<rparr>))
              else Inr st1))"

subsection \<open>What the claims say, in the words of the spec\<close>

text \<open>
  The accuracy of one forward pass over a list of minibatches, in the given training mode
  and with gradient tracking on or off: the labels and the predicted classes of all the
  minibatches are laid end to end in the order of traversal, and the score is the fraction
  of positions where they agree, times 100.
\<close>

definition overall_accuracy ::
  "('p, 'b, 's) externals \<Rightarrow> bool \<Rightarrow> bool \<Rightarrow> 'p \<Rightarrow> 'b list \<Rightarrow> real" where
  "overall_accuracy X mode grad p bs =
     (let ys = concat (map (label X) bs);
          ps = concat (map (\<lambda>b. argmax X (forward X mode grad p b)) bs)
      in 100 * real (length (filter (\<lambda>i. ys ! i = ps ! i) [0..<length ys])) / real (length ys))"

text \<open>The learnable state with which each minibatch of a training epoch is scored: the
  state before the optimizer step of that minibatch.\<close>

fun minibatch_models ::
  "('p, 'b, 's) externals \<Rightarrow> nat \<Rightarrow> nat \<Rightarrow> real \<Rightarrow> 'p \<Rightarrow> 'b list \<Rightarrow> 'p list" where
  "minibatch_models X epoch step rate p [] = []"
| "minibatch_models X epoch step rate p (b # bs) =
     p # minibatch_models X epoch (Suc step) rate (optimizer_step X epoch step rate p b) bs"

definition batch_loss :: "('p, 'b, 's) externals \<Rightarrow> 'p \<times> 'b \<Rightarrow> real" where
  "batch_loss X = (\<lambda>(p, b). loss_fcn X (forward X True True p b) (label X b))"

definition batch_accuracy :: "('p, 'b, 's) externals \<Rightarrow> 'p \<times> 'b \<Rightarrow> real" where
  "batch_accuracy X = (\<lambda>(p, b). overall_accuracy X True True p [b])"

definition memory_sample :: "('p, 'b, 's) externals \<Rightarrow> nat \<Rightarrow> nat \<Rightarrow> real" where
  "memory_sample X epoch step =
     (if cuda_is_available X then real (max_memory_allocated X epoch step) / 1000000 else 0)"

text \<open>The epochs of the epoch lines and the accuracies of the test lines of an output.\<close>

fun line_epoch :: "printed \<Rightarrow> nat list" where
  "line_epoch (EpochLine e l ac v t m) = [e]"
| "line_epoch (TestAccLine v) = []"
| "line_epoch (TotalTimeLine t) = []"

fun line_val_acc :: "printed \<Rightarrow> real list" where
  "line_val_acc (EpochLine e l ac v t m) = [v]"
| "line_val_acc (TestAccLine v) = []"
| "line_val_acc (TotalTimeLine t) = []"

fun line_test_acc :: "printed \<Rightarrow> real list" where
  "line_test_acc (EpochLine e l ac v t m) = []"
| "line_test_acc (TestAccLine v) = [v]"
| "line_test_acc (TotalTimeLine t) = []"

definition logged_epochs :: "printed list \<Rightarrow> nat list" where
  "logged_epochs out = concat (map line_epoch out)"

definition logged_val_accs :: "printed list \<Rightarrow> real list" where
  "logged_val_accs out = concat (map line_val_acc out)"

definition logged_test_accs :: "printed list \<Rightarrow> real list" where
  "logged_test_accs out = concat (map line_test_acc out)"

text \<open>A minibatch is well formed for the metric when it has a label and the model returns
  one score row for each of its labels.\<close>

definition scores_fit :: "('p, 'b, 's) externals \<Rightarrow> 'b list \<Rightarrow> bool" where
  "scores_fit X bs =
     (\<forall>b \<in> set bs. label X b \<noteq> [] \<and>
        (\<forall>mode grad p. length (argmax X (forward X mode grad p b)) = length (label X b)))"

text \<open>The loaders of a worker are well formed for its first \<open>n\<close> epochs: every train
  loader yields a minibatch, and on the leader the evaluation interval is not zero and the
  validation loader yields a minibatch in every evaluation epoch.\<close>

definition loaders_fit :: "nat \<Rightarrow> ('p, 'b, 's) externals \<Rightarrow> args \<Rightarrow> nat \<Rightarrow> bool" where
  "loaders_fit p X a n =
     ((\<forall>e < n. train_dataloader X e \<noteq> [] \<and> scores_fit X (train_dataloader X e)) \<and>
      (p = 0 \<longrightarrow> log_every a \<noteq> 0 \<and>
         (\<forall>e < n. int e mod log_every a = 0 \<longrightarrow>
            val_dataloader X e \<noteq> [] \<and> scores_fit X (val_dataloader X e))))"

text \<open>
  Modelled from the spec: the batching of a minibatch loader
  (\<^verbatim>\<open>dgl.dataloading.DataLoader\<close> with \<^verbatim>\<open>drop_last=False\<close>), whose code is not in the
  repository. The spec: the seeds of a worker are cut into batches of \<open>batch_size\<close> and
  "batches that would be smaller than \<open>batch_size\<close> at sequence end are kept, not
  dropped". The spec describes no loader with a batch size of zero; the model gives it no
  batch.
\<close>

function batches :: "nat \<Rightarrow> 'a list \<Rightarrow> 'a list list" where
  "batches batch_size xs =
     (if batch_size = 0 \<or> xs = [] then []
      else take batch_size xs # batches batch_size (drop batch_size xs))"
  by pat_completeness auto
termination
  by (relation "measure (\<lambda>(n, xs). length xs)") auto

declare batches.simps [simp del]

subsection \<open>A small instance\<close>

text \<open>
  Collaborators small enough to run: a minibatch is the list of its seeds, every node has
  label 0, the learnable state is the number of optimizer steps taken so far, and the
  model gives class 0 (the right one) to the seeds below a threshold that depends on that
  number, class 1 to the others. After one, two, three and four steps the threshold is
  8, 11, 10 and 14.
\<close>

definition toy_threshold :: "int \<Rightarrow> nat" where
  "toy_threshold p = (if p = 1 then 8 else if p = 2 then 11 else if p = 3 then 10 else 14)"

definition toy_time :: "clock_point \<Rightarrow> real" where
  "toy_time c =
     (case c of TrainingStart \<Rightarrow> 0 | EpochStart e \<Rightarrow> 10 * real e + 1
      | EpochPrint e \<Rightarrow> 10 * real e + 17 / 2 | FinalPrint \<Rightarrow> 83 / 2)"

definition toy ::
  "(nat \<Rightarrow> nat list list) \<Rightarrow> (nat \<Rightarrow> nat list list) \<Rightarrow> nat list list \<Rightarrow>
   (int, nat list, nat list) externals" where
  "toy train val tst =
     \<lparr>train_dataloader = train, val_dataloader = val, test_dataloader = tst,
      label = map (\<lambda>v. 0),
      forward = (\<lambda>mode grad p b. map (\<lambda>v. if v < toy_threshold p then 0 else 1) b),
      argmax = (\<lambda>s. s),
      loss_fcn = (\<lambda>s ys. real (length (filter (\<lambda>c. c \<noteq> 0) s))),
      optimizer_step = (\<lambda>epoch step rate p b. p + 1),
      cuda_is_available = True,
      max_memory_allocated = (\<lambda>epoch step. 1000000 * (epoch + step + 1)),
      time = toy_time,
      init_model = 0,
      init_disk = Map.empty\<rparr>"

definition toy_args :: "int \<Rightarrow> int \<Rightarrow> args" where
  "toy_args n every =
     \<lparr>epochs = n, log_every = every, model_save = 1, modelpath = ''deletethis.pt'',
      learning_rate = 1 / 100, sched_stepsize = 25, sched_gamma = 1 / 4\<rparr>"

text \<open>One epoch with two training minibatches, of ten and of two seeds.\<close>

definition mixed :: "(int, nat list, nat list) externals" where
  "mixed =
     toy (\<lambda>epoch. [[0, 1, 2, 3, 4, 5, 6, 7, 8, 20], [5, 30]])
         (\<lambda>epoch. [[0, 1, 2, 3], [8, 9, 10, 11]])
         [[12, 13], [14, 15]]"

text \<open>
  The toy scenario of the spec: one predict category of 100 nodes, 70 of them train seeds
  (0 to 69), 15 validation seeds (70 to 84) and 15 test seeds (85 to 99), batch size 10,
  two workers. The seeds of each kind are split evenly between the workers, the leader
  taking the first part.
\<close>

definition scenario :: "nat \<Rightarrow> (int, nat list, nat list) externals" where
  "scenario r =
     toy (\<lambda>epoch. batches 10 (if r = 0 then [0..<35] else [35..<70]))
         (\<lambda>epoch. batches 10 (if r = 0 then [70..<78] else [78..<85]))
         (batches 10 (if r = 0 then [85..<93] else [93..<100]))"

text \<open>Four evaluation epochs with the validation accuracies 40, 55, 50 and 70: twenty
  validation seeds in two minibatches, one training minibatch per epoch.\<close>

definition synthetic :: "(int, nat list, nat list) externals" where
  "synthetic =
     toy (\<lambda>epoch. [[20, 21]])
         (\<lambda>epoch. [[0, 1, 2, 3, 4, 5, 6, 7, 8, 9], [10, 11, 12, 13, 14, 15, 16, 17, 18, 19]])
         [[12, 13, 14, 15]]"

section \<open>Basic facts about the loops\<close>

lemma train_batches_frame:
  "train_batches X epoch step bs (st, l, accs, mems) = Inr (st', l', accs', mems') \<Longrightarrow>
   training st' = training st \<and> lr st' = lr st \<and> last_epoch st' = last_epoch st \<and>
   best_accuracy st' = best_accuracy st \<and> disk st' = disk st \<and> saves st' = saves st \<and>
   stdout st' = stdout st \<and> train_steps st' = train_steps st + length bs"
proof (induction bs arbitrary: st l accs mems step)
  case Nil
  then show ?case by simp
next
  case (Cons b bs)
  then show ?case
    by (auto simp: Let_def split: sum.splits)
qed

lemma train_epoch_frame:
  "train_epoch X epoch st = Inr (st', l, ac, m) \<Longrightarrow>
   training st' = True \<and> lr st' = lr st \<and> last_epoch st' = last_epoch st \<and>
   best_accuracy st' = best_accuracy st \<and> disk st' = disk st \<and> saves st' = saves st \<and>
   stdout st' = stdout st \<and> train_steps st' = train_steps st + length (train_dataloader X epoch)"
  unfolding train_epoch_def
  by (auto split: sum.splits if_splits dest!: train_batches_frame)

lemma drain_eq:
  "drain X st bs (ps, ls) =
   (ps @ map (\<lambda>b. argmax X (forward X (training st) False (model st) b)) bs,
    ls @ map (label X) bs)"
  by (induction bs arbitrary: ps ls) auto

lemma update_best_frame:
  "model (update_best a e v st) = model st \<and> training (update_best a e v st) = training st \<and>
   lr (update_best a e v st) = lr st \<and> last_epoch (update_best a e v st) = last_epoch st \<and>
   stdout (update_best a e v st) = stdout st \<and> train_steps (update_best a e v st) = train_steps st"
  by (simp add: update_best_def)

lemma update_best_max:
  "best_accuracy (update_best a e v st) = max (best_accuracy st) v"
  by (simp add: update_best_def max_def)

lemma update_best_saves:
  "saves (update_best a e v st) =
   saves st @ (if model_save a \<noteq> 0 \<and> best_accuracy st < v then [e] else [])"
  by (simp add: update_best_def)

lemma update_best_disk:
  "disk (update_best a e v st) =
   (if model_save a \<noteq> 0 \<and> best_accuracy st < v then (disk st)(modelpath a \<mapsto> model st) else disk st)"
  by (simp add: update_best_def)

lemma sched_step_frame:
  "model (sched_step a st) = model st \<and> training (sched_step a st) = training st \<and>
   best_accuracy (sched_step a st) = best_accuracy st \<and> disk (sched_step a st) = disk st \<and>
   saves (sched_step a st) = saves st \<and>
   stdout (sched_step a st) = stdout st \<and> train_steps (sched_step a st) = train_steps st \<and>
   last_epoch (sched_step a st) = last_epoch st + 1"
  by (simp add: sched_step_def Let_def)

lemma validate_Inr:
  "validate X a e st = Inr (v, st') \<Longrightarrow> st' = update_best a e v st"
  by (auto simp: validate_def drain_eq split: sum.splits prod.splits)

lemma run_epochs_append:
  "run_epochs p X a (es @ fs) st =
   (case run_epochs p X a es st of Inl e \<Rightarrow> Inl e | Inr st' \<Rightarrow> run_epochs p X a fs st')"
  by (induction es arbitrary: st) (auto split: sum.splits)

lemma run_epoch_best_mono:
  "run_epoch p X a e st = Inr st' \<Longrightarrow> best_accuracy st \<le> best_accuracy st'"
  unfolding run_epoch_def
  by (auto simp: Let_def sched_step_frame update_best_max split: sum.splits if_splits prod.splits
      dest!: train_epoch_frame validate_Inr)


lemma agree_count:
  "length ys = length ps \<Longrightarrow>
   length (filter (\<lambda>(t, p). t = p) (zip ys ps)) =
   length (filter (\<lambda>i. ys ! i = ps ! i) [0..<length ys])"
proof -
  assume len: "length ys = length ps"
  have "zip ys ps = map (\<lambda>i. (ys ! i, ps ! i)) [0..<length ys]"
    using len by (intro nth_equalityI) auto
  then have "filter (\<lambda>(t, p). t = p) (zip ys ps) =
      map (\<lambda>i. (ys ! i, ps ! i)) (filter (\<lambda>i. ys ! i = ps ! i) [0..<length ys])"
    by (simp add: filter_map o_def)
  then show ?thesis by simp
qed

lemma accuracy_score_Inr:
  "accuracy_score ys ps = Inr s \<Longrightarrow>
   length ys = length ps \<and> ys \<noteq> [] \<and>
   s = real (length (filter (\<lambda>i. ys ! i = ps ! i) [0..<length ys])) / real (length ys)"
  by (auto simp: accuracy_score_def agree_count split: if_splits)

lemma validate_overall:
  "validate X a e st = Inr (v, st') \<Longrightarrow>
   val_dataloader X e \<noteq> [] \<and>
   v = overall_accuracy X (training st) False (model st) (val_dataloader X e) \<and>
   st' = update_best a e v st"
  by (auto simp: validate_def drain_eq concatenate_def overall_accuracy_def Let_def
      split: sum.splits if_splits dest!: accuracy_score_Inr)

lemma test_overall:
  "test X st = Inr v \<Longrightarrow>
   test_dataloader X \<noteq> [] \<and>
   v = overall_accuracy X (training st) False (model st) (test_dataloader X)"
  by (auto simp: test_def drain_eq concatenate_def overall_accuracy_def Let_def
      split: sum.splits if_splits dest!: accuracy_score_Inr)

lemma validate_empty:
  "val_dataloader X e = [] \<Longrightarrow> validate X a e st = Inl ValueError_concatenate"
  by (simp add: validate_def concatenate_def)

lemma test_empty:
  "test_dataloader X = [] \<Longrightarrow> test X st = Inl ValueError_concatenate"
  by (simp add: test_def concatenate_def)

lemma train_epoch_empty:
  "train_dataloader X e = [] \<Longrightarrow> train_epoch X e st = Inl ZeroDivisionError_mean"
  by (simp add: train_epoch_def)

lemma run_epoch_cases:
  assumes "run_epoch p X a e st = Inr st'"
  obtains (quiet) st1 l ac m where
      "train_epoch X e st = Inr (st1, l, ac, m)"
      "\<not> (p = 0 \<and> int e mod log_every a = 0)"
      "st' = sched_step a (st1\<lparr>training := False\<rparr>)"
    | (evaluated) st1 l ac m v st3 where
      "train_epoch X e st = Inr (st1, l, ac, m)"
      "p = 0" "log_every a \<noteq> 0" "int e mod log_every a = 0"
      "validate X a e (st1\<lparr>training := False\<rparr>) = Inr (v, st3)"
      "st' = sched_step a (st3\<lparr>stdout := stdout st3 @
          [EpochLine e l ac v (py_int (time X (EpochPrint e) - time X (EpochStart e))) m]\<rparr>)"
  using assms unfolding run_epoch_def
  by (auto simp: Let_def split: sum.splits if_splits prod.splits)

lemma after_epochs_Suc:
  "after_epochs p X a (Suc n) =
   (case after_epochs p X a n of Inl e \<Rightarrow> Inl e | Inr st \<Rightarrow> run_epoch p X a n st)"
  by (simp add: after_epochs_def run_epochs_append split: sum.splits)

lemma after_epochs_0: "after_epochs p X a 0 = Inr (init_state X a)"
  by (simp add: after_epochs_def)

lemma run_epochs_best_mono:
  "run_epochs p X a es st = Inr st' \<Longrightarrow> best_accuracy st \<le> best_accuracy st'"
proof (induction es arbitrary: st)
  case Nil
  then show ?case by simp
next
  case (Cons e es)
  then obtain s where s: "run_epoch p X a e st = Inr s" "run_epochs p X a es s = Inr st'"
    by (auto split: sum.splits)
  from run_epoch_best_mono[OF s(1)] Cons.IH[OF s(2)] show ?case by simp
qed

lemma run_epoch_follower_best:
  "run_epoch p X a e st = Inr st' \<Longrightarrow> p \<noteq> 0 \<Longrightarrow> best_accuracy st' = best_accuracy st"
  by (erule run_epoch_cases) (auto simp: sched_step_frame dest!: train_epoch_frame)

lemma run_epochs_follower_best:
  "run_epochs p X a es st = Inr st' \<Longrightarrow> p \<noteq> 0 \<Longrightarrow> best_accuracy st' = best_accuracy st"
proof (induction es arbitrary: st)
  case Nil
  then show ?case by simp
next
  case (Cons e es)
  then obtain s where s: "run_epoch p X a e st = Inr s" "run_epochs p X a es s = Inr st'"
    by (auto split: sum.splits)
  from run_epoch_follower_best[OF s(1) Cons.prems(2)] Cons.IH[OF s(2) Cons.prems(2)]
  show ?case by simp
qed

lemma after_epochs_split:
  "n \<le> m \<Longrightarrow> after_epochs p X a m =
     (case after_epochs p X a n of Inl e \<Rightarrow> Inl e | Inr st \<Rightarrow> run_epochs p X a [n..<m] st)"
proof -
  assume "n \<le> m"
  then have "[0..<m] = [0..<n] @ [n..<m]"
    using upt_add_eq_append[of 0 n "m - n"] by simp
  then show ?thesis
    by (simp add: after_epochs_def run_epochs_append)
qed

subsection \<open>Closed forms and totality\<close>

lemma div_step:
  fixes k s :: int
  assumes "0 < s" "0 \<le> k"
  shows "(k + 1) div s = (if (k + 1) mod s = 0 then k div s + 1 else k div s)"
proof (cases "k mod s + 1 = s")
  case True
  have "s * (k div s + 1) = s * (k div s) + s"
    by (simp add: algebra_simps)
  with True mult_div_mod_eq[of s k] have k: "k + 1 = s * (k div s + 1) + 0"
    by linarith
  from int_div_pos_eq[OF k] int_mod_pos_eq[OF k] assms show ?thesis by simp
next
  case False
  have lt: "k mod s + 1 < s" "0 \<le> k mod s + 1"
    using False assms pos_mod_bound[of s k] pos_mod_sign[of s k] by linarith+
  have k: "k + 1 = s * (k div s) + (k mod s + 1)"
    using mult_div_mod_eq[of s k] by (simp add: algebra_simps)
  have "(k + 1) mod s = k mod s + 1"
    using int_mod_pos_eq[OF k lt(2) lt(1)] .
  moreover have "0 < k mod s + 1"
    using pos_mod_sign[of s k] assms by linarith
  ultimately show ?thesis
    using int_div_pos_eq[OF k lt(2) lt(1)] by simp
qed

lemma run_epoch_sched:
  "run_epoch p X a e st = Inr st' \<Longrightarrow>
   last_epoch st' = last_epoch st + 1 \<and>
   lr st' = (if sched_stepsize a \<noteq> 0 \<and> (last_epoch st + 1) mod sched_stepsize a = 0
             then lr st * sched_gamma a else lr st)"
  by (erule run_epoch_cases)
     (auto simp: sched_step_def Let_def update_best_frame dest!: train_epoch_frame validate_overall)

lemma train_batches_Inr:
  "train_batches X e k bs (st, l, A, M) = Inr (st', l', A', M') \<Longrightarrow> training st \<Longrightarrow>
   l' = l + sum_list (map (batch_loss X) (zip (minibatch_models X e k (lr st) (model st) bs) bs)) \<and>
   A' = A @ map (batch_accuracy X) (zip (minibatch_models X e k (lr st) (model st) bs) bs) \<and>
   M' = M @ map (memory_sample X e) [k..<k + length bs]"
proof (induction bs arbitrary: st l A M k)
  case Nil
  then show ?case by simp
next
  case (Cons b bs)
  let ?st = "st\<lparr>model := optimizer_step X e k (lr st) (model st) b,
                 train_steps := train_steps st + 1\<rparr>"
  from Cons.prems obtain s where
    s: "accuracy_score (label X b) (argmax X (forward X True True (model st) b)) = Inr s"
    and r: "train_batches X e (Suc k) bs
        (?st, l + loss_fcn X (forward X True True (model st) b) (label X b), A @ [s * 100],
         M @ [memory_sample X e k]) = Inr (st', l', A', M')"
    by (auto simp: Let_def memory_sample_def split: sum.splits)
  have acc: "s * 100 = batch_accuracy X (model st, b)"
    using accuracy_score_Inr[OF s] by (simp add: batch_accuracy_def overall_accuracy_def)
  have "training ?st" using Cons.prems(2) by simp
  have upt: "[k..<k + length (b # bs)] = k # [Suc k..<Suc k + length bs]"
    by (simp del: upt_Suc add: upt_conv_Cons)
  from Cons.IH[OF r \<open>training ?st\<close>] acc show ?case
    unfolding upt by (simp add: batch_loss_def)
qed

lemma length_minibatch_models [simp]:
  "length (minibatch_models X e k rate p bs) = length bs"
  by (induction bs arbitrary: k p) auto


lemma minibatch_models_Nil [simp]:
  "minibatch_models X e k rate p bs = [] \<longleftrightarrow> bs = []"
  by (cases bs) auto

lemma train_epoch_Inr:
  assumes "train_epoch X e st = Inr (st', l, ac, m)"
  shows "train_dataloader X e \<noteq> [] \<and>
    l = sum_list (map (batch_loss X)
          (zip (minibatch_models X e 0 (lr st) (model st) (train_dataloader X e))
               (train_dataloader X e))) \<and>
    ac = sum_list (map (batch_accuracy X)
          (zip (minibatch_models X e 0 (lr st) (model st) (train_dataloader X e))
               (train_dataloader X e)))
         / real (length (train_dataloader X e)) \<and>
    m = sum_list (map (memory_sample X e) [0..<length (train_dataloader X e)])
         / real (length (train_dataloader X e))"
proof -
  from assms obtain A M where
    tb: "train_batches X e 0 (train_dataloader X e) (st\<lparr>training := True\<rparr>, 0, [], []) =
           Inr (st', l, A, M)"
    and ne: "A \<noteq> []"
    and ac: "ac = sum_list A / real (length A)" and m: "m = sum_list M / real (length M)"
    by (auto simp: train_epoch_def split: sum.splits if_splits)
  from train_batches_Inr[OF tb] have
    "l = sum_list (map (batch_loss X)
          (zip (minibatch_models X e 0 (lr st) (model st) (train_dataloader X e))
               (train_dataloader X e)))"
    "A = map (batch_accuracy X)
          (zip (minibatch_models X e 0 (lr st) (model st) (train_dataloader X e))
               (train_dataloader X e))"
    "M = map (memory_sample X e) [0..<length (train_dataloader X e)]"
    by simp_all
  with ne ac m show ?thesis by auto
qed

lemma accuracy_score_fit:
  "ys \<noteq> [] \<Longrightarrow> length ps = length ys \<Longrightarrow> \<exists>s. accuracy_score ys ps = Inr s"
  by (simp add: accuracy_score_def)

lemma train_batches_total:
  "scores_fit X bs \<Longrightarrow> \<exists>st' l' A' M'. train_batches X e k bs (st, l, A, M) = Inr (st', l', A', M')"
proof (induction bs arbitrary: st l A M k)
  case Nil
  then show ?case by simp
next
  case (Cons b bs)
  from Cons.prems have fit: "scores_fit X bs"
    and b: "label X b \<noteq> []"
      "length (argmax X (forward X (training st) True (model st) b)) = length (label X b)"
    by (auto simp: scores_fit_def)
  from accuracy_score_fit[OF b] obtain s where
    "accuracy_score (label X b) (argmax X (forward X (training st) True (model st) b)) = Inr s" ..
  with Cons.IH[OF fit] show ?case
    by (simp add: Let_def)
qed

lemma train_epoch_total:
  assumes "train_dataloader X e \<noteq> []" "scores_fit X (train_dataloader X e)"
  shows "\<exists>st' l ac m. train_epoch X e st = Inr (st', l, ac, m)"
proof -
  from train_batches_total[OF assms(2)] obtain st' l A M where
    tb: "train_batches X e 0 (train_dataloader X e) (st\<lparr>training := True\<rparr>, 0, [], []) =
           Inr (st', l, A, M)" by blast
  from train_batches_Inr[OF tb] assms(1) have "A \<noteq> []" "M \<noteq> []" by auto
  with tb show ?thesis by (simp add: train_epoch_def)
qed

lemma concat_scores_fit:
  "scores_fit X bs \<Longrightarrow>
   length (concat (map (\<lambda>b. argmax X (forward X mode grad p b)) bs)) =
   length (concat (map (label X) bs))"
  by (induction bs) (auto simp: scores_fit_def)

lemma concat_labels_fit:
  "scores_fit X bs \<Longrightarrow> bs \<noteq> [] \<Longrightarrow>
   concat (map (label X) bs) \<noteq> [] \<and>
   length (concat (map (\<lambda>b. argmax X (forward X mode grad p b)) bs)) =
   length (concat (map (label X) bs))"
  using concat_scores_fit[of X bs mode grad p] by (cases bs) (auto simp: scores_fit_def)

lemma validate_total:
  assumes "val_dataloader X e \<noteq> []" "scores_fit X (val_dataloader X e)"
  shows "\<exists>v st'. validate X a e st = Inr (v, st')"
proof -
  from concat_labels_fit[OF assms(2,1)] accuracy_score_fit obtain s where
    "accuracy_score (concat (map (label X) (val_dataloader X e)))
       (concat (map (\<lambda>b. argmax X (forward X (training st) False (model st) b)) (val_dataloader X e)))
     = Inr s" by blast
  then show ?thesis using assms(1)
    by (simp add: validate_def drain_eq concatenate_def)
qed

lemma test_total:
  assumes "test_dataloader X \<noteq> []" "scores_fit X (test_dataloader X)"
  shows "\<exists>v. test X st = Inr v"
proof -
  from concat_labels_fit[OF assms(2,1)] accuracy_score_fit obtain s where
    "accuracy_score (concat (map (label X) (test_dataloader X)))
       (concat (map (\<lambda>b. argmax X (forward X (training st) False (model st) b)) (test_dataloader X)))
     = Inr s" by blast
  then show ?thesis using assms(1)
    by (simp add: test_def drain_eq concatenate_def)
qed

lemma run_epoch_total:
  assumes "train_dataloader X e \<noteq> []" "scores_fit X (train_dataloader X e)"
    "p = 0 \<longrightarrow> log_every a \<noteq> 0"
    "p = 0 \<and> int e mod log_every a = 0 \<longrightarrow>
       val_dataloader X e \<noteq> [] \<and> scores_fit X (val_dataloader X e)"
  shows "\<exists>st'. run_epoch p X a e st = Inr st'"
proof -
  from train_epoch_total[OF assms(1,2)] obtain st1 l ac m where
    t: "train_epoch X e st = Inr (st1, l, ac, m)" by blast
  show ?thesis
  proof (cases "p = 0 \<and> int e mod log_every a = 0")
    case True
    with assms(4) validate_total obtain v st3 where
      "validate X a e (st1\<lparr>training := False\<rparr>) = Inr (v, st3)" by blast
    with t True assms(3) show ?thesis
      by (simp add: run_epoch_def Let_def)
  next
    case False
    with t assms(3) show ?thesis
      by (auto simp: run_epoch_def Let_def)
  qed
qed

lemma after_epochs_total:
  "loaders_fit p X a n \<Longrightarrow> \<exists>st. after_epochs p X a n = Inr st"
proof (induction n)
  case 0
  then show ?case by (simp add: after_epochs_0)
next
  case (Suc n)
  from Suc.prems have "loaders_fit p X a n"
    by (simp add: loaders_fit_def)
  with Suc.IH obtain st where st: "after_epochs p X a n = Inr st" by blast
  from Suc.prems have "\<exists>st'. run_epoch p X a n st = Inr st'"
    by (intro run_epoch_total) (auto simp: loaders_fit_def)
  with st show ?case
    by (simp add: after_epochs_Suc)
qed

lemma run_total:
  assumes "loaders_fit p X a (nat (epochs a))"
    "p = 0 \<longrightarrow> test_dataloader X \<noteq> [] \<and> scores_fit X (test_dataloader X)"
  shows "\<exists>st. run p X a = Inr st"
proof -
  from after_epochs_total[OF assms(1)] obtain st where
    st: "after_epochs p X a (nat (epochs a)) = Inr st" by blast
  show ?thesis
  proof (cases "p = 0")
    case True
    with assms(2) test_total obtain v where "test X (st\<lparr>training := False\<rparr>) = Inr v" by blast
    with st True show ?thesis by (simp add: run_def)
  next
    case False
    with st show ?thesis by (simp add: run_def)
  qed
qed

lemma after_epochs_sched:
  "0 < sched_stepsize a \<Longrightarrow> after_epochs p X a k = Inr st \<Longrightarrow>
   last_epoch st = int k \<and>
   lr st = learning_rate a * sched_gamma a ^ nat (int k div sched_stepsize a)"
proof (induction k arbitrary: st)
  case 0
  then show ?case by (auto simp: after_epochs_0 init_state_def)
next
  case (Suc k)
  from Suc.prems(2) obtain s where s: "after_epochs p X a k = Inr s"
    and r: "run_epoch p X a k s = Inr st"
    by (auto simp: after_epochs_Suc split: sum.splits)
  from Suc.IH[OF Suc.prems(1) s] have ih: "last_epoch s = int k"
    "lr s = learning_rate a * sched_gamma a ^ nat (int k div sched_stepsize a)" by simp_all
  have d: "(int k + 1) div sched_stepsize a =
      (if (int k + 1) mod sched_stepsize a = 0 then int k div sched_stepsize a + 1
       else int k div sched_stepsize a)"
    using div_step[OF Suc.prems(1), of "int k"] by simp
  have nn: "0 \<le> int k div sched_stepsize a"
    using Suc.prems(1) by (simp add: pos_imp_zdiv_nonneg_iff)
  from run_epoch_sched[OF r] ih d nn Suc.prems(1) show ?case
    by (auto simp: nat_add_distrib add.commute)
qed

subsection \<open>The small instance, evaluated\<close>

lemmas toy_defs = synthetic_def toy_def toy_args_def toy_threshold_def toy_time_def
lemmas code_defs = run_epoch_def train_epoch_def validate_def test_def update_best_def sched_step_def
  accuracy_score_def concatenate_def py_int_def Let_def

lemma synthetic_leader_1:
  "after_epochs 0 synthetic (toy_args 4 1) (Suc 0) =
   Inr \<lparr>model = 1, training = False, lr = 1 / 100, last_epoch = 1, best_accuracy = 40,
        disk = [''deletethis.pt'' \<mapsto> 1], saves = [0],
        stdout = [EpochLine 0 2 0 40 7 1], train_steps = 1\<rparr>"
  by (simp add: after_epochs_Suc after_epochs_0 init_state_def toy_defs code_defs)

lemma synthetic_leader_2:
  "after_epochs 0 synthetic (toy_args 4 1) (Suc (Suc 0)) =
   Inr \<lparr>model = 2, training = False, lr = 1 / 100, last_epoch = 2, best_accuracy = 55,
        disk = [''deletethis.pt'' \<mapsto> 2], saves = [0, 1],
        stdout = [EpochLine 0 2 0 40 7 1, EpochLine 1 2 0 55 7 2], train_steps = 2\<rparr>"
  by (simp only: after_epochs_Suc[of _ _ _ "Suc 0"] synthetic_leader_1 sum.case)
     (simp add: toy_defs code_defs)

lemma synthetic_leader_3:
  "after_epochs 0 synthetic (toy_args 4 1) (Suc (Suc (Suc 0))) =
   Inr \<lparr>model = 3, training = False, lr = 1 / 100, last_epoch = 3, best_accuracy = 55,
        disk = [''deletethis.pt'' \<mapsto> 2], saves = [0, 1],
        stdout = [EpochLine 0 2 0 40 7 1, EpochLine 1 2 0 55 7 2, EpochLine 2 2 0 50 7 3],
        train_steps = 3\<rparr>"
  by (simp only: after_epochs_Suc[of _ _ _ "Suc (Suc 0)"] synthetic_leader_2 sum.case)
     (simp add: toy_defs code_defs)

lemma synthetic_leader_4:
  "after_epochs 0 synthetic (toy_args 4 1) 4 =
   Inr \<lparr>model = 4, training = False, lr = 1 / 100, last_epoch = 4, best_accuracy = 70,
        disk = [''deletethis.pt'' \<mapsto> 4], saves = [0, 1, 3],
        stdout = [EpochLine 0 2 0 40 7 1, EpochLine 1 2 0 55 7 2, EpochLine 2 2 0 50 7 3,
                  EpochLine 3 2 0 70 7 4],
        train_steps = 4\<rparr>"
proof -
  have "(4::nat) = Suc (Suc (Suc (Suc 0)))" by simp
  then show ?thesis
    by (simp only: after_epochs_Suc[of _ _ _ "Suc (Suc (Suc 0))"] synthetic_leader_3 sum.case)
       (simp add: toy_defs code_defs)
qed

lemma synthetic_leader_run:
  "run 0 synthetic (toy_args 4 1) =
   Inr \<lparr>model = 4, training = False, lr = 1 / 100, last_epoch = 4, best_accuracy = 70,
        disk = [''deletethis.pt'' \<mapsto> 4], saves = [0, 1, 3],
        stdout = [EpochLine 0 2 0 40 7 1, EpochLine 1 2 0 55 7 2, EpochLine 2 2 0 50 7 3,
                  EpochLine 3 2 0 70 7 4, TestAccLine 50, TotalTimeLine 41],
        train_steps = 4\<rparr>"
proof -
  have "nat (epochs (toy_args 4 1)) = 4" by (simp add: toy_args_def)
  then show ?thesis
    unfolding run_def by (simp only: synthetic_leader_4 sum.case) (simp add: toy_defs code_defs)
qed

lemma synthetic_follower_1:
  "after_epochs (Suc 0) synthetic (toy_args 4 1) (Suc 0) =
   Inr \<lparr>model = 1, training = False, lr = 1 / 100, last_epoch = 1, best_accuracy = 0,
        disk = Map.empty, saves = [], stdout = [], train_steps = 1\<rparr>"
  by (simp add: after_epochs_Suc after_epochs_0 init_state_def toy_defs code_defs)

section \<open>The best-accuracy tracker and the checkpoint\<close>

text \<open>
  Claim C1, as amended. In every epoch the tracker does not decrease; \<^verbatim>\<open>torch.save\<close> is
  called in exactly the epochs in which the tracker strictly increases while
  \<^verbatim>\<open>model_save\<close> is set, and then the file at \<^verbatim>\<open>modelpath\<close> is overwritten with the
  current model state; in an evaluation epoch of the leader the new tracker is the maximum
  of the old one and the validation accuracy. With the validation accuracies 40, 55, 50
  and 70 in four evaluation epochs the checkpoint is written three times, at steps 1, 2
  and 4: 55 exceeds 40, so the second epoch writes as well.
\<close>

theorem checkpoint_on_strict_increase:
  "(run_epoch p X a e st = Inr st' \<longrightarrow>
      best_accuracy st \<le> best_accuracy st' \<and>
      saves st' = saves st @
        (if model_save a \<noteq> 0 \<and> best_accuracy st < best_accuracy st' then [e] else []) \<and>
      disk st' =
        (if model_save a \<noteq> 0 \<and> best_accuracy st < best_accuracy st'
         then (disk st)(modelpath a \<mapsto> model st') else disk st) \<and>
      (p = 0 \<and> int e mod log_every a = 0 \<longrightarrow>
         best_accuracy st' =
           max (best_accuracy st) (overall_accuracy X False False (model st') (val_dataloader X e)))) \<and>
   \<not> isl (run 0 synthetic (toy_args 4 1)) \<and>
   logged_val_accs (stdout (projr (run 0 synthetic (toy_args 4 1)))) = [40, 55, 50, 70] \<and>
   map Suc (saves (projr (run 0 synthetic (toy_args 4 1)))) = [1, 2, 4]"
proof (intro conjI impI)
  assume r: "run_epoch p X a e st = Inr st'"
  then show "best_accuracy st \<le> best_accuracy st'"
    by (rule run_epoch_best_mono)
  from r show "saves st' = saves st @
        (if model_save a \<noteq> 0 \<and> best_accuracy st < best_accuracy st' then [e] else [])"
    by (rule run_epoch_cases)
       (auto simp: sched_step_frame update_best_saves update_best_max update_best_frame
          dest!: train_epoch_frame validate_overall)
  from r show "disk st' =
        (if model_save a \<noteq> 0 \<and> best_accuracy st < best_accuracy st'
         then (disk st)(modelpath a \<mapsto> model st') else disk st)"
    by (rule run_epoch_cases)
       (auto simp: sched_step_frame update_best_disk update_best_max update_best_frame
          dest!: train_epoch_frame validate_overall)
  assume "p = 0 \<and> int e mod log_every a = 0"
  with r show "best_accuracy st' =
           max (best_accuracy st) (overall_accuracy X False False (model st') (val_dataloader X e))"
    by (elim run_epoch_cases)
       (auto simp: sched_step_frame update_best_max update_best_frame
          dest!: train_epoch_frame validate_overall)
qed (simp_all add: synthetic_leader_run logged_val_accs_def)

theorem checkpoint_on_strict_increase_witness:
  "run_epoch 0 synthetic (toy_args 4 1) 0 (init_state synthetic (toy_args 4 1)) =
     Inr \<lparr>model = 1, training = False, lr = 1 / 100, last_epoch = 1, best_accuracy = 40,
          disk = [''deletethis.pt'' \<mapsto> 1], saves = [0],
          stdout = [EpochLine 0 2 0 40 7 1], train_steps = 1\<rparr> \<and>
   (0::nat) = 0 \<and> int 0 mod log_every (toy_args 4 1) = 0 \<and>
   (40::real) = max 0 (overall_accuracy synthetic False False 1 (val_dataloader synthetic 0))"
proof -
  let ?S = "\<lparr>model = 1, training = False, lr = 1 / 100, last_epoch = 1, best_accuracy = 40,
          disk = [''deletethis.pt'' \<mapsto> 1], saves = [0],
          stdout = [EpochLine 0 2 0 40 7 1], train_steps = 1\<rparr> :: int state"
  have r: "run_epoch 0 synthetic (toy_args 4 1) 0 (init_state synthetic (toy_args 4 1)) = Inr ?S"
    using synthetic_leader_1 by (simp add: after_epochs_Suc after_epochs_0)
  have m: "int 0 mod log_every (toy_args 4 1) = 0"
    by (simp add: toy_args_def)
  from checkpoint_on_strict_increase[where p = 0 and X = synthetic and a = "toy_args 4 1"
      and e = 0 and st = "init_state synthetic (toy_args 4 1)" and st' = ?S] r m
  have "best_accuracy ?S =
      max (best_accuracy (init_state synthetic (toy_args 4 1)))
        (overall_accuracy synthetic False False (model ?S) (val_dataloader synthetic 0))"
    by blast
  then have "(40::real) = max 0 (overall_accuracy synthetic False False 1 (val_dataloader synthetic 0))"
    by (simp add: init_state_def)
  with r m show ?thesis by simp
qed

text \<open>The claim as stated, two writes at steps 1 and 4, fails on that run.\<close>

theorem two_checkpoint_writes_counterexample:
  "\<not> isl (run 0 synthetic (toy_args 4 1)) \<and>
   logged_val_accs (stdout (projr (run 0 synthetic (toy_args 4 1)))) = [40, 55, 50, 70] \<and>
   map Suc (saves (projr (run 0 synthetic (toy_args 4 1)))) \<noteq> [1, 4]"
  by (simp add: synthetic_leader_run logged_val_accs_def)

text \<open>
  Claim C2. The tracker starts at zero; for two epochs \<open>e1 < e2\<close> its value after \<open>e2\<close> is
  at least its value after \<open>e1\<close>; and on a worker other than the leader it is never
  written, so it is still zero after any number of epochs.
\<close>

theorem best_accuracy_monotone:
  "best_accuracy (init_state X a) = 0 \<and>
   (e1 < e2 \<and> after_epochs p X a (Suc e1) = Inr s1 \<and> after_epochs p X a (Suc e2) = Inr s2
      \<longrightarrow> best_accuracy s1 \<le> best_accuracy s2) \<and>
   (p \<noteq> 0 \<and> after_epochs p X a n = Inr s \<longrightarrow> best_accuracy s = 0)"
proof (intro conjI impI)
  show "best_accuracy (init_state X a) = 0"
    by (simp add: init_state_def)
next
  assume h: "e1 < e2 \<and> after_epochs p X a (Suc e1) = Inr s1 \<and> after_epochs p X a (Suc e2) = Inr s2"
  then have "Suc e1 \<le> Suc e2" by simp
  from after_epochs_split[OF this, of p X a] h
  have "run_epochs p X a [Suc e1..<Suc e2] s1 = Inr s2" by simp
  then show "best_accuracy s1 \<le> best_accuracy s2"
    by (rule run_epochs_best_mono)
next
  assume h: "p \<noteq> 0 \<and> after_epochs p X a n = Inr s"
  then have "best_accuracy s = best_accuracy (init_state X a)"
    unfolding after_epochs_def by (auto dest: run_epochs_follower_best)
  then show "best_accuracy s = 0"
    by (simp add: init_state_def)
qed

theorem best_accuracy_monotone_witness:
  "(0::nat) < Suc 0 \<and>
   after_epochs 0 synthetic (toy_args 4 1) (Suc 0) =
     Inr \<lparr>model = 1, training = False, lr = 1 / 100, last_epoch = 1, best_accuracy = 40,
          disk = [''deletethis.pt'' \<mapsto> 1], saves = [0],
          stdout = [EpochLine 0 2 0 40 7 1], train_steps = 1\<rparr> \<and>
   after_epochs 0 synthetic (toy_args 4 1) (Suc (Suc 0)) =
     Inr \<lparr>model = 2, training = False, lr = 1 / 100, last_epoch = 2, best_accuracy = 55,
          disk = [''deletethis.pt'' \<mapsto> 2], saves = [0, 1],
          stdout = [EpochLine 0 2 0 40 7 1, EpochLine 1 2 0 55 7 2], train_steps = 2\<rparr> \<and>
   (40::real) \<le> 55 \<and>
   Suc 0 \<noteq> 0 \<and>
   after_epochs (Suc 0) synthetic (toy_args 4 1) (Suc 0) =
     Inr \<lparr>model = 1, training = False, lr = 1 / 100, last_epoch = 1, best_accuracy = 0,
          disk = Map.empty, saves = [], stdout = [], train_steps = 1\<rparr>"
  using best_accuracy_monotone[where X = synthetic and a = "toy_args 4 1" and p = 0
      and ?e1.0 = 0 and ?e2.0 = "Suc 0"]
    best_accuracy_monotone[where X = synthetic and a = "toy_args 4 1" and p = "Suc 0"
      and n = "Suc 0"]
  by (simp add: synthetic_leader_1 synthetic_leader_2 synthetic_follower_1)

section \<open>The learning-rate schedule\<close>

lemma toy_scores_fit: "[] \<notin> set bs \<Longrightarrow> scores_fit (toy tr va te) bs"
  by (auto simp: scores_fit_def toy_def)

lemma toy_loaders:
  "train_dataloader (toy tr va te) = tr" "val_dataloader (toy tr va te) = va"
  "test_dataloader (toy tr va te) = te"
  by (simp_all add: toy_def)

lemma synthetic_loaders_fit: "every \<noteq> 0 \<Longrightarrow> loaders_fit p synthetic (toy_args n every) k"
  by (auto simp: loaders_fit_def synthetic_def toy_loaders toy_args_def intro!: toy_scores_fit)

text \<open>
  Claim C4. Against the schedule as the spec describes it: after \<open>k\<close> epochs of any
  worker, whatever the evaluation interval, the schedule has been stepped \<open>k\<close> times and
  the learning rate is the initial rate times the decay factor to the power
  \<open>k div step_size\<close>, for a positive step size; with initial rate 0.01, step size 25 and
  decay factor 0.25 the rate after 60 epochs is 0.000625.
\<close>

theorem learning_rate_schedule:
  "(0 < sched_stepsize a \<and> after_epochs p X a k = Inr st \<longrightarrow>
      last_epoch st = int k \<and>
      lr st = learning_rate a * sched_gamma a ^ nat (int k div sched_stepsize a)) \<and>
   (learning_rate a = 1 / 100 \<and> sched_stepsize a = 25 \<and> sched_gamma a = 1 / 4 \<and>
    after_epochs p X a 60 = Inr st' \<longrightarrow> lr st' = 625 / 1000000)"
proof (intro conjI impI)
  assume h: "0 < sched_stepsize a \<and> after_epochs p X a k = Inr st"
  then show "last_epoch st = int k"
    and "lr st = learning_rate a * sched_gamma a ^ nat (int k div sched_stepsize a)"
    using after_epochs_sched[of a p X k st] by simp_all
next
  assume h: "learning_rate a = 1 / 100 \<and> sched_stepsize a = 25 \<and> sched_gamma a = 1 / 4 \<and>
    after_epochs p X a 60 = Inr st'"
  then have l: "learning_rate a = 1 / 100" and s: "sched_stepsize a = 25"
    and g: "sched_gamma a = 1 / 4" and r: "after_epochs p X a 60 = Inr st'"
    by blast+
  have e: "nat (int 60 div sched_stepsize a) = 2"
    unfolding s by simp
  have "lr st' = learning_rate a * sched_gamma a ^ nat (int 60 div sched_stepsize a)"
    using after_epochs_sched[of a p X 60 st'] r s by simp
  then have "lr st' = 1 / 100 * (1 / 4) ^ 2"
    unfolding e l g .
  then show "lr st' = 625 / 1000000"
    by (simp add: power2_eq_square)
qed

theorem learning_rate_schedule_witness:
  "(0::int) < sched_stepsize (toy_args 60 5) \<and>
   learning_rate (toy_args 60 5) = 1 / 100 \<and> sched_stepsize (toy_args 60 5) = 25 \<and>
   sched_gamma (toy_args 60 5) = 1 / 4 \<and>
   \<not> isl (after_epochs 0 synthetic (toy_args 60 5) 60) \<and>
   last_epoch (projr (after_epochs 0 synthetic (toy_args 60 5) 60)) = 60 \<and>
   lr (projr (after_epochs 0 synthetic (toy_args 60 5) 60)) = 625 / 1000000"
proof -
  have "loaders_fit 0 synthetic (toy_args 60 5) 60"
    by (rule synthetic_loaders_fit) simp
  from after_epochs_total[OF this] obtain st where
    st: "after_epochs 0 synthetic (toy_args 60 5) 60 = Inr st" by blast
  have a: "(0::int) < sched_stepsize (toy_args 60 5)" "learning_rate (toy_args 60 5) = 1 / 100"
    "sched_stepsize (toy_args 60 5) = 25" "sched_gamma (toy_args 60 5) = 1 / 4"
    by (simp_all add: toy_args_def)
  from learning_rate_schedule[of "toy_args 60 5" 0 synthetic 60 st st] st a
  have "last_epoch st = 60" "lr st = 625 / 1000000" by simp_all
  with st a show ?thesis by simp
qed

section \<open>The summary of a training epoch\<close>

lemma mixed_train_epoch:
  "train_epoch mixed 0 (init_state mixed (toy_args 1 5)) =
   Inr (\<lparr>model = 2, training = True, lr = 1 / 100, last_epoch = 0, best_accuracy = 0,
         disk = Map.empty, saves = [], stdout = [], train_steps = 2\<rparr>, 2, 70, 3 / 2)"
  by (simp add: mixed_def toy_defs code_defs init_state_def)

text \<open>
  Claim C6. When a training epoch returns, its train loader was not empty; the epoch loss
  is the sum of the losses of its minibatches; the epoch accuracy is the arithmetic mean
  of the minibatch accuracies, each of them 100 times the fraction of the labels of the
  minibatch that the argmax prediction gets right, under the model state in force at that
  minibatch; and the epoch memory is the arithmetic mean of the memory samples taken at
  the minibatches.
\<close>

theorem epoch_summary:
  "train_epoch X e st = Inr (st', epoch_loss, epoch_acc, epoch_gpu_mem) \<longrightarrow>
   train_dataloader X e \<noteq> [] \<and>
   epoch_loss = sum_list (map (batch_loss X)
      (zip (minibatch_models X e 0 (lr st) (model st) (train_dataloader X e))
           (train_dataloader X e))) \<and>
   epoch_acc = sum_list (map (batch_accuracy X)
      (zip (minibatch_models X e 0 (lr st) (model st) (train_dataloader X e))
           (train_dataloader X e)))
     / real (length (train_dataloader X e)) \<and>
   epoch_gpu_mem = sum_list (map (memory_sample X e) [0..<length (train_dataloader X e)])
     / real (length (train_dataloader X e))"
  using train_epoch_Inr[of X e st st' epoch_loss epoch_acc epoch_gpu_mem] by blast

theorem epoch_summary_witness:
  "train_epoch mixed 0 (init_state mixed (toy_args 1 5)) =
     Inr (\<lparr>model = 2, training = True, lr = 1 / 100, last_epoch = 0, best_accuracy = 0,
           disk = Map.empty, saves = [], stdout = [], train_steps = 2\<rparr>, 2, 70, 3 / 2) \<and>
   train_dataloader mixed 0 \<noteq> [] \<and>
   (2::real) = sum_list (map (batch_loss mixed)
      (zip (minibatch_models mixed 0 0 (1 / 100) 0 (train_dataloader mixed 0))
           (train_dataloader mixed 0))) \<and>
   (70::real) = sum_list (map (batch_accuracy mixed)
      (zip (minibatch_models mixed 0 0 (1 / 100) 0 (train_dataloader mixed 0))
           (train_dataloader mixed 0)))
     / real (length (train_dataloader mixed 0)) \<and>
   (3 / 2 :: real) = sum_list (map (memory_sample mixed 0) [0..<length (train_dataloader mixed 0)])
     / real (length (train_dataloader mixed 0))"
proof -
  have i: "lr (init_state mixed (toy_args 1 5)) = 1 / 100"
    "model (init_state mixed (toy_args 1 5)) = 0"
    by (simp_all add: init_state_def toy_args_def mixed_def toy_def)
  from epoch_summary[where X = mixed and e = 0 and st = "init_state mixed (toy_args 1 5)"]
    mixed_train_epoch
  show ?thesis unfolding i by blast
qed

section \<open>The errors of an empty loader\<close>

lemma accuracy_score_Inl:
  "accuracy_score ys ps = Inl err \<Longrightarrow> err = ValueError_inconsistent \<or> err = NotANumber"
  by (auto simp: accuracy_score_def split: if_splits)

lemma train_batches_Inl:
  "train_batches X e k bs (st, l, A, M) = Inl err \<Longrightarrow>
   err = ValueError_inconsistent \<or> err = NotANumber"
proof (induction bs arbitrary: st l A M k)
  case Nil
  then show ?case by simp
next
  case (Cons b bs)
  then show ?case
    by (auto simp: Let_def split: sum.splits dest: accuracy_score_Inl)
qed

lemma train_epoch_Inl:
  assumes "train_epoch X e st = Inl err"
  shows "err = ZeroDivisionError_mean \<and> train_dataloader X e = [] \<or>
         err = ValueError_inconsistent \<or> err = NotANumber"
proof (cases "train_batches X e 0 (train_dataloader X e) (st\<lparr>training := True\<rparr>, 0, [], [])")
  case (Inl x)
  with assms train_batches_Inl[OF Inl] show ?thesis
    by (simp add: train_epoch_def)
next
  case (Inr r)
  obtain st' l A M where r: "r = (st', l, A, M)" by (cases r) auto
  from train_batches_Inr[OF Inr[unfolded r]] have
    "A = [] \<longleftrightarrow> train_dataloader X e = []" "M = [] \<longleftrightarrow> train_dataloader X e = []"
    by auto
  with assms Inr r show ?thesis
    by (auto simp: train_epoch_def split: if_splits)
qed

lemma validate_Inl:
  "validate X a e st = Inl err \<Longrightarrow>
   err = ValueError_concatenate \<and> val_dataloader X e = [] \<or>
   err = ValueError_inconsistent \<or> err = NotANumber"
  by (auto simp: validate_def drain_eq concatenate_def
      split: sum.splits if_splits dest: accuracy_score_Inl)

lemma test_Inl:
  "test X st = Inl err \<Longrightarrow>
   err = ValueError_concatenate \<and> test_dataloader X = [] \<or>
   err = ValueError_inconsistent \<or> err = NotANumber"
  by (auto simp: test_def drain_eq concatenate_def
      split: sum.splits if_splits dest: accuracy_score_Inl)

lemma run_epoch_Inl:
  assumes "run_epoch p X a e st = Inl err"
  shows "err = ZeroDivisionError_mean \<and> train_dataloader X e = [] \<or>
         err = ValueError_concatenate \<and> val_dataloader X e = [] \<and> p = 0 \<and>
           int e mod log_every a = 0 \<or>
         err = ZeroDivisionError_modulo \<and> p = 0 \<and> log_every a = 0 \<or>
         err = ValueError_inconsistent \<or> err = NotANumber"
proof (cases "train_epoch X e st")
  case (Inl x)
  with assms have "x = err" by (simp add: run_epoch_def)
  with train_epoch_Inl[OF Inl] show ?thesis by blast
next
  case (Inr r)
  with assms show ?thesis
    by (auto simp: run_epoch_def Let_def split: prod.splits if_splits sum.splits
        dest: validate_Inl)
qed

lemma run_epochs_Inl:
  "run_epochs p X a es st = Inl err \<Longrightarrow>
   err = ZeroDivisionError_mean \<and> (\<exists>e \<in> set es. train_dataloader X e = []) \<or>
   err = ValueError_concatenate \<and> p = 0 \<and> (\<exists>e \<in> set es. val_dataloader X e = []) \<or>
   err = ZeroDivisionError_modulo \<and> p = 0 \<and> log_every a = 0 \<or>
   err = ValueError_inconsistent \<or> err = NotANumber"
proof (induction es arbitrary: st)
  case Nil
  then show ?case by simp
next
  case (Cons e es)
  show ?case
  proof (cases "run_epoch p X a e st")
    case (Inl x)
    with Cons.prems have "x = err" by simp
    with run_epoch_Inl[OF Inl] show ?thesis by auto
  next
    case (Inr s)
    with Cons.prems have "run_epochs p X a es s = Inl err" by simp
    from Cons.IH[OF this] show ?thesis by auto
  qed
qed

lemma run_Inl:
  assumes "run p X a = Inl err"
  shows "err = ZeroDivisionError_mean \<and> (\<exists>e < nat (epochs a). train_dataloader X e = []) \<or>
   err = ValueError_concatenate \<and> p = 0 \<and>
     ((\<exists>e < nat (epochs a). val_dataloader X e = []) \<or> test_dataloader X = []) \<or>
   err = ZeroDivisionError_modulo \<and> p = 0 \<and> log_every a = 0 \<or>
   err = ValueError_inconsistent \<or> err = NotANumber"
proof (cases "after_epochs p X a (nat (epochs a))")
  case (Inl x)
  with assms have "x = err" by (simp add: run_def)
  with run_epochs_Inl[OF Inl[unfolded after_epochs_def]] show ?thesis by auto
next
  case (Inr s)
  with assms show ?thesis
    by (auto simp: run_def Let_def split: if_splits sum.splits dest: test_Inl)
qed

text \<open>
  Claim C10. An epoch whose train loader yields no minibatch stops at the mean of the
  accuracies with a division by zero, on every worker. On the leader an evaluation epoch
  whose validation loader is empty, and the final evaluation over an empty test loader,
  stop at the concatenation of an empty list. When every train loader and every
  validation loader of the run and the test loader yield a minibatch, the run ends in
  neither of these two errors; and with well-formed minibatches and, on the leader, an
  evaluation interval other than zero, it returns.
\<close>

theorem empty_loader_errors:
  "(train_dataloader X e = [] \<longrightarrow> run_epoch p X a e st = Inl ZeroDivisionError_mean) \<and>
   (val_dataloader X e = [] \<and> train_dataloader X e \<noteq> [] \<and>
    scores_fit X (train_dataloader X e) \<and> log_every a \<noteq> 0 \<and> int e mod log_every a = 0 \<longrightarrow>
      run_epoch 0 X a e st = Inl ValueError_concatenate) \<and>
   (test_dataloader X = [] \<and> after_epochs 0 X a (nat (epochs a)) = Inr st' \<longrightarrow>
      run 0 X a = Inl ValueError_concatenate) \<and>
   ((\<forall>e < nat (epochs a). train_dataloader X e \<noteq> [] \<and> val_dataloader X e \<noteq> []) \<and>
    test_dataloader X \<noteq> [] \<longrightarrow>
      run p X a \<noteq> Inl ZeroDivisionError_mean \<and> run p X a \<noteq> Inl ValueError_concatenate) \<and>
   (loaders_fit p X a (nat (epochs a)) \<and>
    (p = 0 \<longrightarrow> test_dataloader X \<noteq> [] \<and> scores_fit X (test_dataloader X)) \<longrightarrow>
      (\<exists>s. run p X a = Inr s))"
proof (intro conjI impI)
  assume "train_dataloader X e = []"
  then show "run_epoch p X a e st = Inl ZeroDivisionError_mean"
    by (simp add: run_epoch_def train_epoch_empty)
next
  assume h: "val_dataloader X e = [] \<and> train_dataloader X e \<noteq> [] \<and>
    scores_fit X (train_dataloader X e) \<and> log_every a \<noteq> 0 \<and> int e mod log_every a = 0"
  then obtain st1 l ac m where "train_epoch X e st = Inr (st1, l, ac, m)"
    using train_epoch_total[of X e st] by blast
  with h show "run_epoch 0 X a e st = Inl ValueError_concatenate"
    by (simp add: run_epoch_def Let_def validate_empty)
next
  assume "test_dataloader X = [] \<and> after_epochs 0 X a (nat (epochs a)) = Inr st'"
  then show "run 0 X a = Inl ValueError_concatenate"
    by (simp add: run_def Let_def test_empty)
next
  assume h: "(\<forall>e < nat (epochs a). train_dataloader X e \<noteq> [] \<and> val_dataloader X e \<noteq> []) \<and>
    test_dataloader X \<noteq> []"
  show "run p X a \<noteq> Inl ZeroDivisionError_mean"
  proof
    assume "run p X a = Inl ZeroDivisionError_mean"
    from run_Inl[OF this] h show False by auto
  qed
  show "run p X a \<noteq> Inl ValueError_concatenate"
  proof
    assume "run p X a = Inl ValueError_concatenate"
    from run_Inl[OF this] h show False by auto
  qed
next
  assume "loaders_fit p X a (nat (epochs a)) \<and>
    (p = 0 \<longrightarrow> test_dataloader X \<noteq> [] \<and> scores_fit X (test_dataloader X))"
  then show "\<exists>s. run p X a = Inr s"
    using run_total[of p X a] by blast
qed

theorem empty_loader_errors_witness:
  "run_epoch 0 (toy (\<lambda>epoch. []) (\<lambda>epoch. [[0]]) [[0]]) (toy_args 1 5) 0
     (init_state (toy (\<lambda>epoch. []) (\<lambda>epoch. [[0]]) [[0]]) (toy_args 1 5)) =
     Inl ZeroDivisionError_mean \<and>
   run_epoch 0 (toy (\<lambda>epoch. [[0]]) (\<lambda>epoch. []) [[0]]) (toy_args 1 5) 0
     (init_state (toy (\<lambda>epoch. [[0]]) (\<lambda>epoch. []) [[0]]) (toy_args 1 5)) =
     Inl ValueError_concatenate \<and>
   run 0 (toy (\<lambda>epoch. [[0]]) (\<lambda>epoch. [[0]]) []) (toy_args 1 5) = Inl ValueError_concatenate \<and>
   run 0 synthetic (toy_args 4 1) \<noteq> Inl ZeroDivisionError_mean \<and>
   run 0 synthetic (toy_args 4 1) \<noteq> Inl ValueError_concatenate \<and>
   (\<exists>s. run 0 synthetic (toy_args 4 1) = Inr s)"
proof -
  let ?a = "toy_args 1 5"
  let ?X1 = "toy (\<lambda>epoch. []) (\<lambda>epoch. [[0]]) [[0]]"
  let ?X2 = "toy (\<lambda>epoch. [[0]]) (\<lambda>epoch. []) [[0]]"
  let ?X3 = "toy (\<lambda>epoch. [[0]]) (\<lambda>epoch. [[0]]) []"
  have a: "log_every ?a \<noteq> 0" "int 0 mod log_every ?a = 0" "nat (epochs ?a) = 1"
    "nat (epochs (toy_args 4 1)) = 4"
    by (simp_all add: toy_args_def)
  have 1: "run_epoch 0 ?X1 ?a 0 (init_state ?X1 ?a) = Inl ZeroDivisionError_mean"
    using empty_loader_errors[where X = ?X1 and e = 0 and p = 0 and a = ?a
        and st = "init_state ?X1 ?a"]
    by (simp add: toy_loaders)
  have 2: "run_epoch 0 ?X2 ?a 0 (init_state ?X2 ?a) = Inl ValueError_concatenate"
    using empty_loader_errors[where X = ?X2 and e = 0 and a = ?a
        and st = "init_state ?X2 ?a"] a
    by (simp add: toy_loaders toy_scores_fit)
  have "loaders_fit 0 ?X3 ?a 1"
    by (auto simp: loaders_fit_def toy_loaders toy_args_def intro!: toy_scores_fit)
  from after_epochs_total[OF this] obtain s where "after_epochs 0 ?X3 ?a 1 = Inr s" by blast
  then have 3: "run 0 ?X3 ?a = Inl ValueError_concatenate"
    using empty_loader_errors[where X = ?X3 and a = ?a and st' = s] a
    by (simp add: toy_loaders)
  have 4: "run 0 synthetic (toy_args 4 1) \<noteq> Inl ZeroDivisionError_mean \<and>
      run 0 synthetic (toy_args 4 1) \<noteq> Inl ValueError_concatenate"
    using empty_loader_errors[where X = synthetic and a = "toy_args 4 1" and p = 0]
    by (simp add: synthetic_def toy_loaders)
  have "loaders_fit 0 synthetic (toy_args 4 1) (nat (epochs (toy_args 4 1)))"
    by (rule synthetic_loaders_fit) simp
  then have 5: "\<exists>s. run 0 synthetic (toy_args 4 1) = Inr s"
    using empty_loader_errors[where X = synthetic and a = "toy_args 4 1" and p = 0]
    by (simp add: synthetic_def toy_loaders toy_scores_fit)
  from 1 2 3 4 5 show ?thesis by blast
qed

section \<open>What the worker prints\<close>

lemma logged_epochs_append [simp]:
  "logged_epochs (xs @ ys) = logged_epochs xs @ logged_epochs ys"
  by (simp add: logged_epochs_def)

lemma logged_test_accs_append [simp]:
  "logged_test_accs (xs @ ys) = logged_test_accs xs @ logged_test_accs ys"
  by (simp add: logged_test_accs_def)

lemma run_epoch_stdout:
  assumes "run_epoch p X a e st = Inr st'"
  shows "\<exists>st1 l ac m. train_epoch X e st = Inr (st1, l, ac, m) \<and>
     model st' = model st1 \<and>
     stdout st' = stdout st @
       (if p = 0 \<and> int e mod log_every a = 0
        then [EpochLine e l ac (overall_accuracy X False False (model st') (val_dataloader X e))
                (py_int (time X (EpochPrint e) - time X (EpochStart e))) m]
        else [])"
  using assms
proof (cases rule: run_epoch_cases)
  case (quiet st1 l ac m)
  with train_epoch_frame[OF quiet(1)] show ?thesis
    by (auto simp: sched_step_frame)
next
  case (evaluated st1 l ac m v st3)
  from validate_overall[OF evaluated(5)] have
    v: "v = overall_accuracy X False False (model st1) (val_dataloader X e)"
    and st3: "st3 = update_best a e v (st1\<lparr>training := False\<rparr>)" by simp_all
  with evaluated train_epoch_frame[OF evaluated(1)] show ?thesis
    by (simp add: sched_step_frame update_best_frame)
qed

lemma run_epoch_quiet:
  assumes "run_epoch p X a e st = Inr st'" "\<not> (p = 0 \<and> int e mod log_every a = 0)"
  shows "best_accuracy st' = best_accuracy st \<and> saves st' = saves st \<and> disk st' = disk st"
  using assms
  by (cases rule: run_epoch_cases) (auto simp: sched_step_frame dest!: train_epoch_frame)

lemma run_epochs_logged:
  "run_epochs p X a es st = Inr st' \<Longrightarrow>
   logged_epochs (stdout st') = logged_epochs (stdout st) @
     (if p = 0 then filter (\<lambda>e. int e mod log_every a = 0) es else []) \<and>
   logged_test_accs (stdout st') = logged_test_accs (stdout st)"
proof (induction es arbitrary: st)
  case Nil
  then show ?case by simp
next
  case (Cons e es)
  then obtain s where s: "run_epoch p X a e st = Inr s" "run_epochs p X a es s = Inr st'"
    by (auto split: sum.splits)
  from run_epoch_stdout[OF s(1)] have
    "logged_epochs (stdout s) = logged_epochs (stdout st) @
       (if p = 0 \<and> int e mod log_every a = 0 then [e] else [])"
    "logged_test_accs (stdout s) = logged_test_accs (stdout st)"
    by (auto simp: logged_epochs_def logged_test_accs_def)
  with Cons.IH[OF s(2)] show ?case by simp
qed

lemma run_cases:
  assumes "run p X a = Inr s"
  obtains (follower) st where "after_epochs p X a (nat (epochs a)) = Inr st" "p \<noteq> 0"
      "s = st\<lparr>training := False\<rparr>"
    | (leader) st v where "after_epochs p X a (nat (epochs a)) = Inr st" "p = 0"
      "test X (st\<lparr>training := False\<rparr>) = Inr v"
      "s = st\<lparr>training := False,
              stdout := stdout st @
                [TestAccLine v, TotalTimeLine (py_int (time X FinalPrint - time X TrainingStart))]\<rparr>"
  using assms unfolding run_def
  by (auto simp: Let_def split: sum.splits if_splits)

lemmas mixed_defs = mixed_def toy_def toy_args_def toy_threshold_def toy_time_def

lemma mixed_leader_1:
  "after_epochs 0 mixed (toy_args 3 2) (Suc 0) =
   Inr \<lparr>model = 2, training = False, lr = 1 / 100, last_epoch = 1, best_accuracy = 175 / 2,
        disk = [''deletethis.pt'' \<mapsto> 2], saves = [0],
        stdout = [EpochLine 0 2 70 (175 / 2) 7 (3 / 2)], train_steps = 2\<rparr>"
  by (simp add: after_epochs_Suc after_epochs_0 init_state_def mixed_defs code_defs)

lemma mixed_leader_2:
  "after_epochs 0 mixed (toy_args 3 2) (Suc (Suc 0)) =
   Inr \<lparr>model = 4, training = False, lr = 1 / 100, last_epoch = 2, best_accuracy = 175 / 2,
        disk = [''deletethis.pt'' \<mapsto> 2], saves = [0],
        stdout = [EpochLine 0 2 70 (175 / 2) 7 (3 / 2)], train_steps = 4\<rparr>"
  by (simp only: after_epochs_Suc[of _ _ _ "Suc 0"] mixed_leader_1 sum.case)
     (simp add: mixed_defs code_defs)

lemma mixed_leader_3:
  "after_epochs 0 mixed (toy_args 3 2) 3 =
   Inr \<lparr>model = 6, training = False, lr = 1 / 100, last_epoch = 3, best_accuracy = 100,
        disk = [''deletethis.pt'' \<mapsto> 6], saves = [0, 2],
        stdout = [EpochLine 0 2 70 (175 / 2) 7 (3 / 2), EpochLine 2 2 70 100 7 (7 / 2)],
        train_steps = 6\<rparr>"
proof -
  have "(3::nat) = Suc (Suc (Suc 0))" by simp
  then show ?thesis
    by (simp only: after_epochs_Suc[of _ _ _ "Suc (Suc 0)"] mixed_leader_2 sum.case)
       (simp add: mixed_defs code_defs)
qed

lemma mixed_leader_run:
  "run 0 mixed (toy_args 3 2) =
   Inr \<lparr>model = 6, training = False, lr = 1 / 100, last_epoch = 3, best_accuracy = 100,
        disk = [''deletethis.pt'' \<mapsto> 6], saves = [0, 2],
        stdout = [EpochLine 0 2 70 (175 / 2) 7 (3 / 2), EpochLine 2 2 70 100 7 (7 / 2),
                  TestAccLine 50, TotalTimeLine 41],
        train_steps = 6\<rparr>"
proof -
  have "nat (epochs (toy_args 3 2)) = 3" by (simp add: toy_args_def)
  then show ?thesis
    unfolding run_def by (simp only: mixed_leader_3 sum.case) (simp add: mixed_defs code_defs)
qed

lemma mixed_follower_run:
  "run (Suc 0) mixed (toy_args 1 5) =
   Inr \<lparr>model = 2, training = False, lr = 1 / 100, last_epoch = 1, best_accuracy = 0,
        disk = Map.empty, saves = [], stdout = [], train_steps = 2\<rparr>"
proof -
  have "nat (epochs (toy_args 1 5)) = Suc 0" by (simp add: toy_args_def)
  then show ?thesis
    unfolding run_def
    by (simp add: after_epochs_Suc after_epochs_0 init_state_def mixed_defs code_defs)
qed

lemma train_batches_other_loaders:
  "train_batches (X\<lparr>val_dataloader := v\<rparr>) e k bs (st, l, A, M) =
     train_batches X e k bs (st, l, A, M)"
  "train_batches (X\<lparr>test_dataloader := t\<rparr>) e k bs (st, l, A, M) =
     train_batches X e k bs (st, l, A, M)"
  by (induction bs arbitrary: k st l A M; simp add: Let_def split: sum.splits)+

lemma train_epoch_other_loaders:
  "train_epoch (X\<lparr>val_dataloader := v\<rparr>) e st = train_epoch X e st"
  "train_epoch (X\<lparr>test_dataloader := t\<rparr>) e st = train_epoch X e st"
  by (simp_all add: train_epoch_def train_batches_other_loaders)

lemma validate_other_loaders:
  "validate (X\<lparr>test_dataloader := t\<rparr>) a e st = validate X a e st"
  "v e = val_dataloader X e \<Longrightarrow> validate (X\<lparr>val_dataloader := v\<rparr>) a e st = validate X a e st"
  by (simp_all add: validate_def drain_eq)

lemma run_epoch_test_loader:
  "run_epoch p (X\<lparr>test_dataloader := t\<rparr>) a e st = run_epoch p X a e st"
  by (auto simp: run_epoch_def train_epoch_other_loaders validate_other_loaders Let_def
      split: sum.splits)

lemma run_epoch_val_loader:
  "p = 0 \<and> int e mod log_every a = 0 \<longrightarrow> v e = val_dataloader X e \<Longrightarrow>
   run_epoch p (X\<lparr>val_dataloader := v\<rparr>) a e st = run_epoch p X a e st"
  by (auto simp: run_epoch_def train_epoch_other_loaders validate_other_loaders Let_def
      split: sum.splits)

lemma run_epochs_test_loader:
  "run_epochs p (X\<lparr>test_dataloader := t\<rparr>) a es st = run_epochs p X a es st"
  by (induction es arbitrary: st) (simp_all add: run_epoch_test_loader split: sum.splits)

lemma run_epochs_val_loader:
  "p = 0 \<longrightarrow> (\<forall>e \<in> set es. int e mod log_every a = 0 \<longrightarrow> v e = val_dataloader X e) \<Longrightarrow>
   run_epochs p (X\<lparr>val_dataloader := v\<rparr>) a es st = run_epochs p X a es st"
proof (induction es arbitrary: st)
  case Nil
  then show ?case by simp
next
  case (Cons e es)
  from Cons.prems have "run_epoch p (X\<lparr>val_dataloader := v\<rparr>) a e st = run_epoch p X a e st"
    by (intro run_epoch_val_loader) simp
  moreover from Cons.prems have
    "\<And>s. run_epochs p (X\<lparr>val_dataloader := v\<rparr>) a es s = run_epochs p X a es s"
    by (intro Cons.IH) simp
  ultimately show ?case by (simp split: sum.splits)
qed

lemma after_epochs_test_loader:
  "after_epochs p (X\<lparr>test_dataloader := t\<rparr>) a n = after_epochs p X a n"
  by (simp add: after_epochs_def run_epochs_test_loader init_state_def)

lemma after_epochs_val_loader:
  "p = 0 \<longrightarrow> (\<forall>e < n. int e mod log_every a = 0 \<longrightarrow> v e = val_dataloader X e) \<Longrightarrow>
   after_epochs p (X\<lparr>val_dataloader := v\<rparr>) a n = after_epochs p X a n"
  by (simp add: after_epochs_def run_epochs_val_loader init_state_def)

lemma test_val_loader: "test (X\<lparr>val_dataloader := v\<rparr>) st = test X st"
  by (simp add: test_def drain_eq)

lemma run_val_loader:
  "p = 0 \<longrightarrow> (\<forall>e < nat (epochs a). int e mod log_every a = 0 \<longrightarrow> v e = val_dataloader X e) \<Longrightarrow>
   run p (X\<lparr>val_dataloader := v\<rparr>) a = run p X a"
  by (auto simp: run_def after_epochs_val_loader test_val_loader Let_def split: sum.splits)

lemma run_follower:
  "p \<noteq> 0 \<Longrightarrow>
   run p X a = (case after_epochs p X a (nat (epochs a)) of
                  Inl e \<Rightarrow> Inl e | Inr st \<Rightarrow> Inr (st\<lparr>training := False\<rparr>))"
  by (simp add: run_def Let_def split: sum.splits)

lemma run_follower_test_loader:
  "p \<noteq> 0 \<Longrightarrow> run p (X\<lparr>test_dataloader := t\<rparr>) a = run p X a"
  by (simp add: run_follower after_epochs_test_loader)

lemma validate_pure:
  "validate X a e st = Inr (v, st') \<Longrightarrow>
   model st' = model st \<and> lr st' = lr st \<and> last_epoch st' = last_epoch st \<and>
   train_steps st' = train_steps st \<and> training st' = training st"
  by (auto dest!: validate_overall simp: update_best_frame)

lemma run_epoch_report:
  assumes "run_epoch p X a e st = Inr st'"
  shows "\<exists>st1 l ac m. train_epoch X e st = Inr (st1, l, ac, m) \<and>
     model st' = model st1 \<and> train_steps st' = train_steps st1 \<and>
     stdout st' = stdout st @
       (if p = 0 \<and> int e mod log_every a = 0
        then [EpochLine e l ac (overall_accuracy X False False (model st') (val_dataloader X e))
                (py_int (time X (EpochPrint e) - time X (EpochStart e))) m]
        else [])"
  using assms
proof (cases rule: run_epoch_cases)
  case (quiet st1 l ac m)
  with train_epoch_frame[OF quiet(1)] show ?thesis
    by (auto simp: sched_step_frame)
next
  case (evaluated st1 l ac m v st3)
  from validate_overall[OF evaluated(5)] have
    v: "v = overall_accuracy X False False (model st1) (val_dataloader X e)"
    and st3: "st3 = update_best a e v (st1\<lparr>training := False\<rparr>)" by simp_all
  with evaluated train_epoch_frame[OF evaluated(1)] show ?thesis
    by (simp add: sched_step_frame update_best_frame)
qed

text \<open>
  Claim C5. An epoch that returns has trained first; it appends to the output exactly one
  epoch line when the worker is the leader and the epoch index is a multiple of the
  evaluation interval, and nothing otherwise. The line holds the epoch index, the loss
  sum, the train accuracy and the memory of the training epoch, the accuracy of the model
  over the whole validation loader (labels and predictions laid end to end in traversal
  order), computed by forward passes in evaluation mode with gradient tracking off, and the
  truncated seconds between the two clock readings of the epoch. Validation leaves the
  model and the count of training steps as the training of the epoch left them. An epoch
  that does not evaluate leaves the tracker, the list of saves and the disk as they were,
  and does not read the validation loader: it gives the same result, error or state,
  whatever that loader would yield. Over a whole run, a worker other than the leader never
  reads the validation loader, and the leader reads it only in the epochs whose index is a
  multiple of the evaluation interval. The epochs of the epoch lines of a run are, on the
  leader, those multiples below the number of epochs in increasing order, and on every
  other worker there is none.
\<close>

theorem validation_epochs:
  "(run_epoch p X a e st = Inr st' \<longrightarrow>
      (\<exists>st1 l ac m. train_epoch X e st = Inr (st1, l, ac, m) \<and>
         model st' = model st1 \<and> train_steps st' = train_steps st1 \<and>
         stdout st' = stdout st @
           (if p = 0 \<and> int e mod log_every a = 0
            then [EpochLine e l ac (overall_accuracy X False False (model st') (val_dataloader X e))
                    (py_int (time X (EpochPrint e) - time X (EpochStart e))) m]
            else [])) \<and>
      (\<not> (p = 0 \<and> int e mod log_every a = 0) \<longrightarrow>
         best_accuracy st' = best_accuracy st \<and> saves st' = saves st \<and> disk st' = disk st)) \<and>
   (\<not> (p = 0 \<and> int e mod log_every a = 0) \<longrightarrow>
      run_epoch p (X\<lparr>val_dataloader := v\<rparr>) a e st = run_epoch p X a e st) \<and>
   ((p = 0 \<longrightarrow> (\<forall>e' < nat (epochs a). int e' mod log_every a = 0 \<longrightarrow> w e' = val_dataloader X e')) \<longrightarrow>
      run p (X\<lparr>val_dataloader := w\<rparr>) a = run p X a) \<and>
   (run p X a = Inr s \<longrightarrow>
      logged_epochs (stdout s) =
        (if p = 0 then filter (\<lambda>e. int e mod log_every a = 0) [0..<nat (epochs a)] else []))"
proof (intro conjI impI)
  assume r: "run_epoch p X a e st = Inr st'"
  from run_epoch_report[OF r]
  show "\<exists>st1 l ac m. train_epoch X e st = Inr (st1, l, ac, m) \<and>
         model st' = model st1 \<and> train_steps st' = train_steps st1 \<and>
         stdout st' = stdout st @
           (if p = 0 \<and> int e mod log_every a = 0
            then [EpochLine e l ac (overall_accuracy X False False (model st') (val_dataloader X e))
                    (py_int (time X (EpochPrint e) - time X (EpochStart e))) m]
            else [])"
    by blast
  assume "\<not> (p = 0 \<and> int e mod log_every a = 0)"
  from run_epoch_quiet[OF r this]
  show "best_accuracy st' = best_accuracy st" "saves st' = saves st" "disk st' = disk st"
    by simp_all
next
  assume "\<not> (p = 0 \<and> int e mod log_every a = 0)"
  then show "run_epoch p (X\<lparr>val_dataloader := v\<rparr>) a e st = run_epoch p X a e st"
    by (intro run_epoch_val_loader) blast
next
  assume "p = 0 \<longrightarrow> (\<forall>e' < nat (epochs a). int e' mod log_every a = 0 \<longrightarrow> w e' = val_dataloader X e')"
  then show "run p (X\<lparr>val_dataloader := w\<rparr>) a = run p X a"
    by (rule run_val_loader)
next
  assume "run p X a = Inr s"
  then show "logged_epochs (stdout s) =
        (if p = 0 then filter (\<lambda>e. int e mod log_every a = 0) [0..<nat (epochs a)] else [])"
  proof (cases rule: run_cases)
    case (follower st)
    from run_epochs_logged[OF follower(1)[unfolded after_epochs_def]] follower(2,3)
    show ?thesis by (simp add: init_state_def logged_epochs_def)
  next
    case (leader st v)
    from run_epochs_logged[OF leader(1)[unfolded after_epochs_def]] leader(2,4)
    show ?thesis by (simp add: init_state_def) (simp add: logged_epochs_def)
  qed
qed

theorem validation_epochs_witness:
  "run_epoch 0 mixed (toy_args 3 2) (Suc 0) (projr (after_epochs 0 mixed (toy_args 3 2) (Suc 0))) =
     after_epochs 0 mixed (toy_args 3 2) (Suc (Suc 0)) \<and>
   \<not> isl (after_epochs 0 mixed (toy_args 3 2) (Suc (Suc 0))) \<and>
   \<not> (0 = (0::nat) \<and> int (Suc 0) mod log_every (toy_args 3 2) = 0) \<and>
   stdout (projr (after_epochs 0 mixed (toy_args 3 2) (Suc (Suc 0)))) =
     stdout (projr (after_epochs 0 mixed (toy_args 3 2) (Suc 0))) \<and>
   best_accuracy (projr (after_epochs 0 mixed (toy_args 3 2) (Suc (Suc 0)))) =
     best_accuracy (projr (after_epochs 0 mixed (toy_args 3 2) (Suc 0))) \<and>
   run_epoch 0 mixed (toy_args 3 2) 2 (projr (after_epochs 0 mixed (toy_args 3 2) (Suc (Suc 0)))) =
     after_epochs 0 mixed (toy_args 3 2) 3 \<and>
   \<not> isl (after_epochs 0 mixed (toy_args 3 2) 3) \<and>
   int 2 mod log_every (toy_args 3 2) = 0 \<and>
   stdout (projr (after_epochs 0 mixed (toy_args 3 2) 3)) =
     stdout (projr (after_epochs 0 mixed (toy_args 3 2) (Suc (Suc 0)))) @
     [EpochLine 2 2 70 (overall_accuracy mixed False False 6 (val_dataloader mixed 2)) 7 (7 / 2)] \<and>
   \<not> isl (run 0 mixed (toy_args 3 2)) \<and>
   logged_epochs (stdout (projr (run 0 mixed (toy_args 3 2)))) = [0, 2] \<and>
   run_epoch 0 (mixed\<lparr>val_dataloader := \<lambda>epoch. []\<rparr>) (toy_args 3 2) (Suc 0)
       (projr (after_epochs 0 mixed (toy_args 3 2) (Suc 0))) =
     after_epochs 0 mixed (toy_args 3 2) (Suc (Suc 0)) \<and>
   run 0 (mixed\<lparr>val_dataloader := \<lambda>epoch. if epoch = Suc 0 then [] else val_dataloader mixed epoch\<rparr>)
       (toy_args 3 2) = run 0 mixed (toy_args 3 2) \<and>
   run (Suc 0) (mixed\<lparr>val_dataloader := \<lambda>epoch. []\<rparr>) (toy_args 1 5) =
     run (Suc 0) mixed (toy_args 1 5) \<and>
   \<not> isl (run (Suc 0) mixed (toy_args 1 5))"
proof -
  let ?a = "toy_args 3 2"
  let ?S1 = "projr (after_epochs 0 mixed ?a (Suc 0))"
  let ?S2 = "projr (after_epochs 0 mixed ?a (Suc (Suc 0)))"
  let ?S3 = "projr (after_epochs 0 mixed ?a 3)"
  have a: "int (Suc 0) mod log_every ?a \<noteq> 0" "int 2 mod log_every ?a = 0"
    "nat (epochs ?a) = 3"
    by (simp_all add: toy_args_def)
  have r1: "run_epoch 0 mixed ?a (Suc 0) ?S1 = Inr ?S2"
    using mixed_leader_2 by (simp add: after_epochs_Suc[of _ _ _ "Suc 0"] mixed_leader_1)
  have r2: "run_epoch 0 mixed ?a 2 ?S2 = Inr ?S3"
    using mixed_leader_3 mixed_leader_2
    by (simp add: after_epochs_Suc[of _ _ _ "Suc (Suc 0)"] numeral_3_eq_3 numeral_2_eq_2)
  from validation_epochs[where p = 0 and X = mixed and a = ?a and e = "Suc 0" and st = ?S1
      and st' = ?S2] r1 a(1)
  have q: "stdout ?S2 = stdout ?S1" "best_accuracy ?S2 = best_accuracy ?S1"
    by auto
  have c: "0 = (0::nat) \<and> int 2 mod log_every ?a = 0"
    using a(2) by simp
  from validation_epochs[where p = 0 and X = mixed and a = ?a and e = 2 and st = ?S2
      and st' = ?S3] r2
  have "\<exists>st1 l ac m. train_epoch mixed 2 ?S2 = Inr (st1, l, ac, m) \<and>
     stdout ?S3 = stdout ?S2 @
       (if 0 = (0::nat) \<and> int 2 mod log_every ?a = 0
        then [EpochLine 2 l ac (overall_accuracy mixed False False (model ?S3) (val_dataloader mixed 2))
                (py_int (time mixed (EpochPrint 2) - time mixed (EpochStart 2))) m]
        else [])"
    by blast
  then obtain l ac m where
    "stdout ?S3 = stdout ?S2 @
       [EpochLine 2 l ac (overall_accuracy mixed False False (model ?S3) (val_dataloader mixed 2))
          (py_int (time mixed (EpochPrint 2) - time mixed (EpochStart 2))) m]"
    unfolding if_P[OF c] by blast
  then have l: "stdout ?S3 = stdout ?S2 @
       [EpochLine 2 2 70 (overall_accuracy mixed False False 6 (val_dataloader mixed 2)) 7 (7 / 2)]"
    by (simp add: mixed_leader_3 mixed_leader_2)
  from validation_epochs[where p = 0 and X = mixed and a = ?a
      and s = "projr (run 0 mixed ?a)"] a(3)
  have e: "logged_epochs (stdout (projr (run 0 mixed ?a))) =
      filter (\<lambda>e. int e mod log_every ?a = 0) [0..<3]"
    by (simp add: mixed_leader_run)
  have "[0..<3] = [0, Suc 0, 2]"
    by (simp add: numeral_3_eq_3 numeral_2_eq_2)
  with e a have e': "logged_epochs (stdout (projr (run 0 mixed ?a))) = [0, 2]"
    by simp
  have n1: "run_epoch 0 (mixed\<lparr>val_dataloader := \<lambda>epoch. []\<rparr>) ?a (Suc 0) ?S1 = Inr ?S2"
    using validation_epochs[where p = 0 and X = mixed and a = ?a and e = "Suc 0" and st = ?S1
        and v = "\<lambda>epoch. []"] a(1) r1
    by simp
  have "\<forall>e' < nat (epochs ?a). int e' mod log_every ?a = 0 \<longrightarrow>
      (if e' = Suc 0 then [] else val_dataloader mixed e') = val_dataloader mixed e'"
    using a(1) by auto
  with validation_epochs[where p = 0 and X = mixed and a = ?a
      and w = "\<lambda>epoch. if epoch = Suc 0 then [] else val_dataloader mixed epoch"]
  have n2: "run 0 (mixed\<lparr>val_dataloader :=
      \<lambda>epoch. if epoch = Suc 0 then [] else val_dataloader mixed epoch\<rparr>) ?a = run 0 mixed ?a"
    by blast
  from validation_epochs[where p = "Suc 0" and X = mixed and a = "toy_args 1 5"
      and w = "\<lambda>epoch. []"]
  have n3: "run (Suc 0) (mixed\<lparr>val_dataloader := \<lambda>epoch. []\<rparr>) (toy_args 1 5) =
      run (Suc 0) mixed (toy_args 1 5)"
    by simp
  have n4: "\<not> isl (run (Suc 0) mixed (toy_args 1 5))"
    by (simp add: mixed_follower_run)
  have old: "run_epoch 0 mixed ?a (Suc 0) ?S1 = after_epochs 0 mixed ?a (Suc (Suc 0))"
    "\<not> isl (after_epochs 0 mixed ?a (Suc (Suc 0)))"
    "run_epoch 0 mixed ?a 2 ?S2 = after_epochs 0 mixed ?a 3"
    "\<not> isl (after_epochs 0 mixed ?a 3)" "\<not> isl (run 0 mixed ?a)"
    "run_epoch 0 (mixed\<lparr>val_dataloader := \<lambda>epoch. []\<rparr>) ?a (Suc 0) ?S1 =
       after_epochs 0 mixed ?a (Suc (Suc 0))"
    using r1 r2 n1 by (simp_all add: mixed_leader_run mixed_leader_2 mixed_leader_3)
  have na: "\<not> (0 = (0::nat) \<and> int (Suc 0) mod log_every ?a = 0)"
    using a(1) by simp
  from old na q l e' a(2) n2 n3 n4 show ?thesis
    by blast
qed

text \<open>
  Claim C9. A run that returns has completed its epochs, whose output holds no test line;
  after them the tracker, the list of saves, the disk and the model are unchanged; the
  leader appends exactly one test line, with the accuracy of the model over the whole test
  loader computed as for validation (evaluation mode, gradient tracking off), and then the
  truncated seconds since the start of training; every other worker appends nothing. A
  worker other than the leader returns whenever its epochs do, with the state they left
  (in evaluation mode), and never reads the test loader; and on no worker do the epochs
  read the test loader, so the test evaluation happens after the last epoch only.
\<close>

theorem final_test_evaluation:
  "(run p X a = Inr s \<longrightarrow>
     (\<exists>st. after_epochs p X a (nat (epochs a)) = Inr st \<and>
        logged_test_accs (stdout st) = [] \<and>
        best_accuracy s = best_accuracy st \<and> saves s = saves st \<and> disk s = disk st \<and>
        model s = model st \<and>
        stdout s = stdout st @
          (if p = 0
           then [TestAccLine (overall_accuracy X False False (model st) (test_dataloader X)),
                 TotalTimeLine (py_int (time X FinalPrint - time X TrainingStart))]
           else [])) \<and>
     logged_test_accs (stdout s) =
       (if p = 0 then [overall_accuracy X False False (model s) (test_dataloader X)] else [])) \<and>
   (p \<noteq> 0 \<longrightarrow>
      run p X a = (case after_epochs p X a (nat (epochs a)) of
                     Inl err \<Rightarrow> Inl err | Inr st \<Rightarrow> Inr (st\<lparr>training := False\<rparr>))) \<and>
   after_epochs p (X\<lparr>test_dataloader := t\<rparr>) a n = after_epochs p X a n \<and>
   (p \<noteq> 0 \<longrightarrow> run p (X\<lparr>test_dataloader := t\<rparr>) a = run p X a)"
proof (intro conjI impI)
  assume r: "run p X a = Inr s"
  then show "\<exists>st. after_epochs p X a (nat (epochs a)) = Inr st \<and>
        logged_test_accs (stdout st) = [] \<and>
        best_accuracy s = best_accuracy st \<and> saves s = saves st \<and> disk s = disk st \<and>
        model s = model st \<and>
        stdout s = stdout st @
          (if p = 0
           then [TestAccLine (overall_accuracy X False False (model st) (test_dataloader X)),
                 TotalTimeLine (py_int (time X FinalPrint - time X TrainingStart))]
           else [])"
  proof (cases rule: run_cases)
    case (follower st)
    from run_epochs_logged[OF follower(1)[unfolded after_epochs_def]]
    have "logged_test_accs (stdout st) = []"
      by (simp add: init_state_def logged_test_accs_def)
    with follower show ?thesis by simp
  next
    case (leader st v)
    from run_epochs_logged[OF leader(1)[unfolded after_epochs_def]]
    have t: "logged_test_accs (stdout st) = []"
      by (simp add: init_state_def logged_test_accs_def)
    from test_overall[OF leader(3)]
    have v: "v = overall_accuracy X False False (model st) (test_dataloader X)" by simp
    from leader t v show ?thesis by simp
  qed
  from r show "logged_test_accs (stdout s) =
       (if p = 0 then [overall_accuracy X False False (model s) (test_dataloader X)] else [])"
  proof (cases rule: run_cases)
    case (follower st)
    from run_epochs_logged[OF follower(1)[unfolded after_epochs_def]]
    have "logged_test_accs (stdout st) = []"
      by (simp add: init_state_def logged_test_accs_def)
    with follower show ?thesis by simp
  next
    case (leader st v)
    from run_epochs_logged[OF leader(1)[unfolded after_epochs_def]]
    have t: "logged_test_accs (stdout st) = []"
      by (simp add: init_state_def logged_test_accs_def)
    from test_overall[OF leader(3)]
    have v: "v = overall_accuracy X False False (model st) (test_dataloader X)" by simp
    from leader t v show ?thesis by (simp add: logged_test_accs_def)
  qed
next
  assume "p \<noteq> 0"
  then show "run p X a = (case after_epochs p X a (nat (epochs a)) of
                     Inl err \<Rightarrow> Inl err | Inr st \<Rightarrow> Inr (st\<lparr>training := False\<rparr>))"
    by (rule run_follower)
next
  show "after_epochs p (X\<lparr>test_dataloader := t\<rparr>) a n = after_epochs p X a n"
    by (rule after_epochs_test_loader)
next
  assume "p \<noteq> 0"
  then show "run p (X\<lparr>test_dataloader := t\<rparr>) a = run p X a"
    by (rule run_follower_test_loader)
qed

theorem final_test_evaluation_witness:
  "\<not> isl (run 0 mixed (toy_args 3 2)) \<and>
   stdout (projr (run 0 mixed (toy_args 3 2))) =
     stdout (projr (after_epochs 0 mixed (toy_args 3 2) 3)) @
     [TestAccLine (overall_accuracy mixed False False 6 (test_dataloader mixed)), TotalTimeLine 41] \<and>
   saves (projr (run 0 mixed (toy_args 3 2))) =
     saves (projr (after_epochs 0 mixed (toy_args 3 2) 3)) \<and>
   best_accuracy (projr (run 0 mixed (toy_args 3 2))) =
     best_accuracy (projr (after_epochs 0 mixed (toy_args 3 2) 3)) \<and>
   [50] = [overall_accuracy mixed False False 6 (test_dataloader mixed)] \<and>
   \<not> isl (run (Suc 0) mixed (toy_args 1 5)) \<and>
   logged_test_accs (stdout (projr (run (Suc 0) mixed (toy_args 1 5)))) = [] \<and>
   Suc 0 \<noteq> 0 \<and>
   run (Suc 0) mixed (toy_args 1 5) =
     (case after_epochs (Suc 0) mixed (toy_args 1 5) (nat (epochs (toy_args 1 5))) of
        Inl err \<Rightarrow> Inl err | Inr st \<Rightarrow> Inr (st\<lparr>training := False\<rparr>)) \<and>
   run (Suc 0) (mixed\<lparr>test_dataloader := []\<rparr>) (toy_args 1 5) = run (Suc 0) mixed (toy_args 1 5) \<and>
   after_epochs 0 (mixed\<lparr>test_dataloader := []\<rparr>) (toy_args 3 2) 3 =
     after_epochs 0 mixed (toy_args 3 2) 3"
proof -
  let ?a = "toy_args 3 2"
  let ?R = "projr (run 0 mixed ?a)"
  have n: "nat (epochs ?a) = 3" by (simp add: toy_args_def)
  have r: "run 0 mixed ?a = Inr ?R" by (simp add: mixed_leader_run)
  from final_test_evaluation[where p = 0 and X = mixed and a = ?a and s = ?R and t = "[]"
      and n = 3] r
  obtain st where st: "after_epochs 0 mixed ?a (nat (epochs ?a)) = Inr st"
    "best_accuracy ?R = best_accuracy st" "saves ?R = saves st"
    "stdout ?R = stdout st @
       [TestAccLine (overall_accuracy mixed False False (model st) (test_dataloader mixed)),
        TotalTimeLine (py_int (time mixed FinalPrint - time mixed TrainingStart))]"
    "logged_test_accs (stdout ?R) = [overall_accuracy mixed False False (model ?R) (test_dataloader mixed)]"
    by auto
  from st(1) have s: "st = projr (after_epochs 0 mixed ?a 3)"
    unfolding n by simp
  have l: "stdout ?R = stdout (projr (after_epochs 0 mixed ?a 3)) @
     [TestAccLine (overall_accuracy mixed False False 6 (test_dataloader mixed)), TotalTimeLine 41]"
    using st(4) unfolding s by (simp add: mixed_leader_3 mixed_leader_run)
  have t: "[50] = [overall_accuracy mixed False False 6 (test_dataloader mixed)]"
    using st(5) by (simp add: mixed_leader_run logged_test_accs_def)
  let ?F = "projr (run (Suc 0) mixed (toy_args 1 5))"
  have f: "run (Suc 0) mixed (toy_args 1 5) = Inr ?F" by (simp add: mixed_follower_run)
  from final_test_evaluation[where p = "Suc 0" and X = mixed and a = "toy_args 1 5" and s = ?F
      and t = "[]" and n = 0] f
  have "logged_test_accs (stdout ?F) =
      (if Suc 0 = 0 then [overall_accuracy mixed False False (model ?F) (test_dataloader mixed)]
       else [])"
    by blast
  then have g: "logged_test_accs (stdout ?F) = []" by simp
  have i: "\<not> isl (run 0 mixed ?a)" "\<not> isl (run (Suc 0) mixed (toy_args 1 5))"
    by (simp_all add: mixed_leader_run mixed_follower_run)
  note T = final_test_evaluation[where p = "Suc 0" and X = mixed and a = "toy_args 1 5"
      and t = "[]"]
  have m1: "run (Suc 0) mixed (toy_args 1 5) =
     (case after_epochs (Suc 0) mixed (toy_args 1 5) (nat (epochs (toy_args 1 5))) of
        Inl err \<Rightarrow> Inl err | Inr st \<Rightarrow> Inr (st\<lparr>training := False\<rparr>))"
    using T by simp
  have m2: "run (Suc 0) (mixed\<lparr>test_dataloader := []\<rparr>) (toy_args 1 5) =
      run (Suc 0) mixed (toy_args 1 5)"
    using T by simp
  have m3: "after_epochs 0 (mixed\<lparr>test_dataloader := []\<rparr>) (toy_args 3 2) 3 =
     after_epochs 0 mixed (toy_args 3 2) 3"
    using final_test_evaluation[where p = 0 and X = mixed and a = ?a and t = "[]" and n = 3]
    by simp
  have "Suc 0 \<noteq> 0" by simp
  with i l t g st(2,3) m1 m2 m3 show ?thesis unfolding s by blast
qed

section \<open>The toy scenario\<close>

lemma batches_empty [simp]: "batches n [] = []" "batches 0 xs = []"
  by (simp_all add: batches.simps)

lemma batches_step:
  "0 < n \<Longrightarrow> xs \<noteq> [] \<Longrightarrow> batches n xs = take n xs # batches n (drop n xs)"
  by (subst batches.simps) simp

lemma batches_nonempty: "[] \<notin> set (batches n xs)"
proof (induction n xs rule: batches.induct)
  case (1 n xs)
  show ?case
  proof (cases "n = 0 \<or> xs = []")
    case True
    then show ?thesis by auto
  next
    case False
    with "1.IH" have "[] \<notin> set (batches n (drop n xs))" by simp
    with False show ?thesis
      by (simp add: batches_step)
  qed
qed



lemma ceil_step:
  fixes m n :: nat
  assumes "0 < n" "0 < m"
  shows "Suc ((m - n + n - 1) div n) = (m + n - 1) div n"
proof -
  have e: "m + n - 1 = (m - 1) + n" using assms(2) by linarith
  have r: "(m + n - 1) div n = Suc ((m - 1) div n)"
    unfolding e using assms(1) by simp
  show ?thesis
  proof (cases "n \<le> m")
    case True
    then have "m - n + n - 1 = m - 1" by linarith
    with r show ?thesis by simp
  next
    case False
    then have "m - n + n - 1 = n - 1" "m - 1 < n" by linarith+
    moreover have "(n - 1) div n = 0" using assms(1) by simp
    ultimately show ?thesis using r by simp
  qed
qed

lemma length_batches:
  "0 < n \<Longrightarrow> length (batches n xs) = (length xs + n - 1) div n"
proof (induction n xs rule: batches.induct)
  case (1 n xs)
  show ?case
  proof (cases "xs = []")
    case True
    with "1.prems" show ?thesis by simp
  next
    case False
    from "1.IH" False "1.prems"
    have ih: "length (batches n (drop n xs)) = (length xs - n + n - 1) div n"
      by simp
    have "length (batches n xs) = Suc (length (batches n (drop n xs)))"
      by (simp add: batches_step[OF "1.prems" False])
    also have "\<dots> = Suc ((length xs - n + n - 1) div n)"
      by (simp only: ih)
    also have "\<dots> = (length xs + n - 1) div n"
      using False by (intro ceil_step[OF "1.prems"]) simp
    finally show ?thesis .
  qed
qed

lemma run_epoch_steps:
  "run_epoch p X a e st = Inr st' \<Longrightarrow>
   train_steps st' = train_steps st + length (train_dataloader X e)"
  by (erule run_epoch_cases)
     (auto simp: sched_step_frame update_best_frame dest!: train_epoch_frame validate_overall)

lemma run_single_epoch:
  assumes "epochs a = 1" "run p X a = Inr s"
  shows "train_steps s = length (train_dataloader X 0) \<and>
    logged_epochs (stdout s) = (if p = 0 then [0] else []) \<and>
    length (logged_test_accs (stdout s)) = (if p = 0 then 1 else 0) \<and>
    (p \<noteq> 0 \<longrightarrow> stdout s = [])"
proof -
  have n: "nat (epochs a) = Suc 0" using assms(1) by simp
  from assms(2) show ?thesis
  proof (cases rule: run_cases)
    case (follower st)
    from follower(1) have r: "run_epoch p X a 0 (init_state X a) = Inr st"
      unfolding n by (simp add: after_epochs_Suc after_epochs_0)
    from run_epoch_steps[OF r] run_epoch_stdout[OF r] follower(2,3) show ?thesis
      by (auto simp: init_state_def logged_epochs_def logged_test_accs_def)
  next
    case (leader st v)
    from leader(1) have r: "run_epoch p X a 0 (init_state X a) = Inr st"
      unfolding n by (simp add: after_epochs_Suc after_epochs_0)
    from run_epoch_stdout[OF r] leader(2) have "logged_epochs (stdout st) = [0]"
      "logged_test_accs (stdout st) = []"
      by (auto simp: init_state_def logged_epochs_def logged_test_accs_def)
    with run_epoch_steps[OF r] leader(2,4) show ?thesis
      by (simp add: init_state_def) (simp add: logged_epochs_def logged_test_accs_def)
  qed
qed

lemma batches_Nil_iff: "batches n xs = [] \<longleftrightarrow> n = 0 \<or> xs = []"
proof (cases "n = 0 \<or> xs = []")
  case True
  then show ?thesis by auto
next
  case False
  then show ?thesis by (simp add: batches_step)
qed

lemma even_split_runs:
  assumes a: "epochs a = 1" "log_every a \<noteq> 0"
    and parts: "length part0 = 35" "length part1 = 35"
    and train: "train_dataloader X0 0 = batches 10 part0" "train_dataloader X1 0 = batches 10 part1"
    and fit: "scores_fit X0 (train_dataloader X0 0)" "scores_fit X1 (train_dataloader X1 0)"
    and val: "val_dataloader X0 0 \<noteq> []" "scores_fit X0 (val_dataloader X0 0)"
    and tst: "test_dataloader X0 \<noteq> []" "scores_fit X0 (test_dataloader X0)"
  shows "\<exists>s0 s1. run 0 X0 a = Inr s0 \<and> run (Suc 0) X1 a = Inr s1 \<and>
    train_steps s0 = 4 \<and> train_steps s1 = 4 \<and> train_steps s0 + train_steps s1 = 8 \<and>
    logged_epochs (stdout s0) = [0] \<and> length (logged_test_accs (stdout s0)) = 1 \<and>
    stdout s1 = []"
proof -
  have n: "nat (epochs a) = Suc 0" using a(1) by simp
  have len: "length (train_dataloader X0 0) = 4" "length (train_dataloader X1 0) = 4"
    unfolding train by (simp_all add: length_batches parts)
  then have ne: "train_dataloader X0 0 \<noteq> []" "train_dataloader X1 0 \<noteq> []"
    by auto
  have "loaders_fit 0 X0 a (nat (epochs a))"
    unfolding n using ne(1) fit(1) val a(2) by (simp add: loaders_fit_def)
  from run_total[OF this] tst obtain s0 where s0: "run 0 X0 a = Inr s0" by blast
  have "loaders_fit (Suc 0) X1 a (nat (epochs a))"
    unfolding n using ne(2) fit(2) by (simp add: loaders_fit_def)
  from run_total[OF this] obtain s1 where s1: "run (Suc 0) X1 a = Inr s1" by auto
  from run_single_epoch[OF a(1) s0] run_single_epoch[OF a(1) s1] len s0 s1
  show ?thesis by simp
qed

lemma scenario_loaders:
  "train_dataloader (scenario 0) 0 = batches 10 [0..<35]"
  "train_dataloader (scenario (Suc 0)) 0 = batches 10 [35..<70]"
  "scores_fit (scenario r) (train_dataloader (scenario r) e)"
  "val_dataloader (scenario 0) 0 \<noteq> []"
  "scores_fit (scenario r) (val_dataloader (scenario r) e)"
  "test_dataloader (scenario 0) \<noteq> []"
  "scores_fit (scenario r) (test_dataloader (scenario r))"
  by (simp_all add: scenario_def toy_loaders toy_scores_fit batches_nonempty batches_Nil_iff)

lemma scenario_runs:
  "\<exists>s0 s1. run 0 (scenario 0) (toy_args 1 5) = Inr s0 \<and>
     run (Suc 0) (scenario (Suc 0)) (toy_args 1 5) = Inr s1 \<and>
     train_steps s0 = 4 \<and> train_steps s1 = 4 \<and> train_steps s0 + train_steps s1 = 8 \<and>
     logged_epochs (stdout s0) = [0] \<and> length (logged_test_accs (stdout s0)) = 1 \<and>
     stdout s1 = []"
  by (rule even_split_runs[OF _ _ _ _ scenario_loaders(1) scenario_loaders(2)
        scenario_loaders(3) scenario_loaders(3) scenario_loaders(4) scenario_loaders(5)
        scenario_loaders(6) scenario_loaders(7)])
     (simp_all add: toy_args_def)

text \<open>
  Claim C8, as amended. Against the batching as the spec describes it: with one epoch, an
  evaluation interval other than zero, batch size 10 and the 70 train seeds split evenly,
  35 to each of the two workers, both workers return when their minibatches are well
  formed and the leader has validation and test minibatches; each worker trains on 4
  minibatches, the fourth of 5 seeds, so 8 in total and not 7; the leader prints one epoch
  line, for epoch 0, and one test line, and the other worker prints nothing.
\<close>

theorem toy_scenario_batches:
  "epochs a = 1 \<and> log_every a \<noteq> 0 \<and>
   length part0 = 35 \<and> length part1 = 35 \<and>
   train_dataloader X0 0 = batches 10 part0 \<and> train_dataloader X1 0 = batches 10 part1 \<and>
   scores_fit X0 (train_dataloader X0 0) \<and> scores_fit X1 (train_dataloader X1 0) \<and>
   val_dataloader X0 0 \<noteq> [] \<and> scores_fit X0 (val_dataloader X0 0) \<and>
   test_dataloader X0 \<noteq> [] \<and> scores_fit X0 (test_dataloader X0) \<longrightarrow>
   (\<exists>s0 s1. run 0 X0 a = Inr s0 \<and> run (Suc 0) X1 a = Inr s1 \<and>
      train_steps s0 = 4 \<and> train_steps s1 = 4 \<and> train_steps s0 + train_steps s1 = 8 \<and>
      logged_epochs (stdout s0) = [0] \<and> length (logged_test_accs (stdout s0)) = 1 \<and>
      stdout s1 = [])"
  using even_split_runs[of a part0 part1 X0 X1] by blast

theorem toy_scenario_batches_witness:
  "epochs (toy_args 1 5) = 1 \<and> log_every (toy_args 1 5) \<noteq> 0 \<and>
   length [0..<35] = 35 \<and> length [35..<70] = 35 \<and>
   train_dataloader (scenario 0) 0 = batches 10 [0..<35] \<and>
   train_dataloader (scenario (Suc 0)) 0 = batches 10 [35..<70] \<and>
   (\<exists>s0 s1. run 0 (scenario 0) (toy_args 1 5) = Inr s0 \<and>
      run (Suc 0) (scenario (Suc 0)) (toy_args 1 5) = Inr s1 \<and>
      train_steps s0 = 4 \<and> train_steps s1 = 4 \<and> train_steps s0 + train_steps s1 = 8 \<and>
      logged_epochs (stdout s0) = [0] \<and> length (logged_test_accs (stdout s0)) = 1 \<and>
      stdout s1 = [])"
proof -
  have h: "epochs (toy_args 1 5) = 1" "log_every (toy_args 1 5) \<noteq> 0"
    "length [0..<35] = 35" "length [35..<70] = 35"
    by (simp_all add: toy_args_def)
  from toy_scenario_batches[where a = "toy_args 1 5" and ?part0.0 = "[0..<35]"
      and ?part1.0 = "[35..<70]" and ?X0.0 = "scenario 0" and ?X1.0 = "scenario (Suc 0)"]
    h scenario_loaders
  have "\<exists>s0 s1. run 0 (scenario 0) (toy_args 1 5) = Inr s0 \<and>
      run (Suc 0) (scenario (Suc 0)) (toy_args 1 5) = Inr s1 \<and>
      train_steps s0 = 4 \<and> train_steps s1 = 4 \<and> train_steps s0 + train_steps s1 = 8 \<and>
      logged_epochs (stdout s0) = [0] \<and> length (logged_test_accs (stdout s0)) = 1 \<and>
      stdout s1 = []"
    by blast
  with h scenario_loaders(1,2) show ?thesis by blast
qed

text \<open>The claim as stated, 7 minibatches in total, fails on the scenario.\<close>

theorem seven_minibatches_counterexample:
  "\<not> isl (run 0 (scenario 0) (toy_args 1 5)) \<and>
   \<not> isl (run (Suc 0) (scenario (Suc 0)) (toy_args 1 5)) \<and>
   train_steps (projr (run 0 (scenario 0) (toy_args 1 5))) +
   train_steps (projr (run (Suc 0) (scenario (Suc 0)) (toy_args 1 5))) \<noteq> 7"
proof -
  from scenario_runs obtain s0 s1 where
    "run 0 (scenario 0) (toy_args 1 5) = Inr s0"
    "run (Suc 0) (scenario (Suc 0)) (toy_args 1 5) = Inr s1"
    "train_steps s0 + train_steps s1 = 8" by blast
  then show ?thesis by simp
qed

end
